theory Spec2Isabelle
  imports Main
begin

section \<open>The virtual project host of the script language service\<close>

text \<open>
  The host created by \<open>createLanguageService\<close> keeps, closed over by its callbacks,
  the current document, a version counter and a tracked document per file path, the
  list of root file names, the compiler options and the document cache it was handed.
  The model passes that state explicitly. Everything the host calls that is not its own
  code (the uri and path libraries, the document cache, the mixed-content helpers, the
  bridge constants and the compiler's own module resolution) is a field of an
  environment record, so every theorem holds for whatever those functions compute.
  What a call raises is a value: a callback returns either its result or the error.
\<close>

subsection \<open>Documents, the disk and the host state\<close>

record TextDocument =
  uri :: string
  languageId :: string
  version :: int
  getText :: string

text \<open>\<open>TextDocument.create(uri, languageId, version, content)\<close>.\<close>

definition TextDocument_create :: "string \<Rightarrow> string \<Rightarrow> int \<Rightarrow> string \<Rightarrow> TextDocument" where
  "TextDocument_create u l v c = \<lparr>uri = u, languageId = l, version = v, getText = c\<rparr>"

datatype js_error = TypeError | ReferenceError | IOError

text \<open>
  The file system as the host sees it through \<open>ts.sys\<close>. A path holds no file, a
  file whose text can be read, or a file that exists and cannot be read.
  \<open>fileExists\<close> asks whether there is a file; \<open>readFile\<close> returns \<open>undefined\<close>
  (here \<open>None\<close>) where there is none, the text where it can be read, and throws
  where the file exists and the read fails.
\<close>

datatype file_entry = Readable string | Unreadable

type_synonym disk = "string \<rightharpoonup> file_entry"

definition sys_fileExists :: "disk \<Rightarrow> string \<Rightarrow> bool" where
  "sys_fileExists d p = (d p \<noteq> None)"

definition sys_readFile :: "disk \<Rightarrow> string \<Rightarrow> js_error + string option" where
  "sys_readFile d p =
     (case d p of
        None \<Rightarrow> Inr None
      | Some Unreadable \<Rightarrow> Inl IOError
      | Some (Readable content) \<Rightarrow> Inr (Some content))"

datatype Extension = Ts | Js

record ResolvedModule =
  resolvedFileName :: string
  extension :: Extension

text \<open>
  The closure variables of \<open>createLanguageService\<close>. \<open>allowJs\<close> is the one compiler
  option the host changes after start-up; \<open>cleanups\<close> counts the calls of
  \<open>jsLanguageService.cleanupSemanticCache()\<close>, the host's only effect on the service;
  \<open>jsDocuments\<close> is the state of the document cache the host was handed, of a type
  \<open>'c\<close> that is the cache's own business. The version counters are JavaScript
  numbers that only ever count up from 1 in steps of 1; they are modelled as natural
  numbers.
\<close>

record 'c host =
  currentTextDocument :: "TextDocument option"
  versions :: "string \<rightharpoonup> nat"
  docs :: "string \<rightharpoonup> TextDocument"
  files :: "string list"
  allowJs :: bool
  cleanups :: nat
  jsDocuments :: 'c

text \<open>
  The state right after \<open>createLanguageService\<close>: no current document, empty maps,
  the file names of the parsed project configuration, its \<open>allowJs\<close> option and the
  cache as it was handed over.
\<close>

definition init_host :: "string list \<Rightarrow> bool \<Rightarrow> 'c \<Rightarrow> 'c host" where
  "init_host fileNames aj cache =
     \<lparr>currentTextDocument = None, versions = Map.empty, docs = Map.empty,
      files = fileNames, allowJs = aj, cleanups = 0, jsDocuments = cache\<rparr>"

subsection \<open>What the host takes from outside\<close>

text \<open>
  \<open>Uri.parse(u).fsPath\<close>, \<open>Uri.parse(u).path\<close>, \<open>Uri.file(f).fsPath\<close> and
  \<open>Uri.file(f).toString()\<close>; Node's \<open>path\<close> functions; \<open>isVue\<close> and
  \<open>parseVue\<close> of the mixed-content support; the document cache, whose \<open>get\<close>
  answers with a script document and leaves the cache in a new state, and whose
  \<open>onDocumentRemoved\<close> changes its state; the three constants of the bridge module;
  \<open>ts.resolveModuleName\<close> with the containing file, the compiler options (of which
  only \<open>allowJs\<close> ever changes) and \<open>ts.sys\<close>; and whether the platform is
  Windows.
\<close>

record 'c env =
  uri_parse_fsPath :: "string \<Rightarrow> string"
  uri_parse_path :: "string \<Rightarrow> string"
  uri_file_fsPath :: "string \<Rightarrow> string"
  uri_file_toString :: "string \<Rightarrow> string"
  path_isAbsolute :: "string \<Rightarrow> bool"
  path_dirname :: "string \<Rightarrow> string"
  path_join :: "string \<Rightarrow> string \<Rightarrow> string"
  isVue :: "string \<Rightarrow> bool"
  parseVue :: "string \<Rightarrow> string"
  jsDocuments_get :: "'c \<Rightarrow> TextDocument \<Rightarrow> TextDocument \<times> 'c"
  jsDocuments_onDocumentRemoved :: "'c \<Rightarrow> TextDocument \<Rightarrow> 'c"
  bridge_fileName :: string
  bridge_moduleName :: string
  bridge_content :: string
  ts_resolveModuleName :: "string \<Rightarrow> string \<Rightarrow> bool \<Rightarrow> disk \<Rightarrow> ResolvedModule option"
  is_windows :: bool

text \<open>\<open>getFileFsPath\<close> and \<open>getNormalizedFileFsPath\<close> of the host module.\<close>

definition getFileFsPath :: "'c env \<Rightarrow> string \<Rightarrow> string" where
  "getFileFsPath E documentUri = uri_parse_fsPath E documentUri"

definition getNormalizedFileFsPath :: "'c env \<Rightarrow> string \<Rightarrow> string" where
  "getNormalizedFileFsPath E fileName = uri_file_fsPath E fileName"

text \<open>lodash's \<open>_.endsWith(string, target)\<close>.\<close>

definition endsWith :: "string \<Rightarrow> string \<Rightarrow> bool" where
  "endsWith s t = (length t \<le> length s \<and> drop (length s - length t) s = t)"

subsection \<open>The editor-facing update\<close>

text \<open>The test of line 55: is the submitted document another one than the current?\<close>

definition accepted :: "'c host \<Rightarrow> TextDocument \<Rightarrow> bool" where
  "accepted s doc =
     (case currentTextDocument s of
        None \<Rightarrow> True
      | Some c \<Rightarrow> uri doc \<noteq> uri c \<or> version doc \<noteq> version c)"

text \<open>Lines 50 to 54: a path not yet in \<open>docs\<close> that ends in \<open>.vue\<close> is pushed.\<close>

definition addFile :: "'c host \<Rightarrow> string \<Rightarrow> 'c host" where
  "addFile s fileFsPath =
     (if docs s fileFsPath = None then
        (if endsWith fileFsPath ''.vue'' then s\<lparr>files := files s @ [fileFsPath]\<rparr> else s)
      else s)"

text \<open>Lines 57 to 64: a changed \<open>languageId\<close> resets the semantic cache.\<close>

definition languageChange :: "'c host \<Rightarrow> TextDocument \<Rightarrow> TextDocument option \<Rightarrow> 'c host" where
  "languageChange s cur lastDoc =
     (case lastDoc of
        None \<Rightarrow> s
      | Some l \<Rightarrow>
          if languageId cur \<noteq> languageId l
          then s\<lparr>allowJs := (languageId l \<noteq> ''typescript''), cleanups := cleanups s + 1\<rparr>
          else s)"

text \<open>\<open>versions.get(fileFsPath) || 0\<close>, the counter an update starts from.\<close>

definition versionOf :: "'c host \<Rightarrow> string \<Rightarrow> nat" where
  "versionOf s fileFsPath =
     (case versions s fileFsPath of None \<Rightarrow> 0 | Some v \<Rightarrow> if v = 0 then 0 else v)"

text \<open>
  The script document the cache answers with for a document, in the host's present
  state: \<open>jsDocuments.get(doc)\<close>, the answer alone.
\<close>

definition scriptDocument :: "'c env \<Rightarrow> 'c host \<Rightarrow> TextDocument \<Rightarrow> TextDocument" where
  "scriptDocument E s doc = fst (jsDocuments_get E (jsDocuments s) doc)"

definition updateCurrentTextDocument :: "'c env \<Rightarrow> 'c host \<Rightarrow> TextDocument \<Rightarrow> 'c host" where
  "updateCurrentTextDocument E s doc =
     (let fileFsPath = getFileFsPath E (uri doc);
          s1 = addFile s fileFsPath
      in if accepted s1 doc then
           (let (cur, cache) = jsDocuments_get E (jsDocuments s1) doc;
                lastDoc = docs s1 fileFsPath;
                s2 = languageChange s1 cur lastDoc
            in s2\<lparr>currentTextDocument := Some cur,
                  docs := (docs s2)(fileFsPath \<mapsto> cur),
                  versions := (versions s2)(fileFsPath \<mapsto> versionOf s2 fileFsPath + 1),
                  jsDocuments := cache\<rparr>)
         else s1)"

text \<open>A session: the editor's updates, one after the other.\<close>

fun run_updates :: "'c env \<Rightarrow> 'c host \<Rightarrow> TextDocument list \<Rightarrow> 'c host" where
  "run_updates E s [] = s"
| "run_updates E s (d # ds) = run_updates E (updateCurrentTextDocument E s d) ds"

text \<open>
  \<open>onDocumentRemoved\<close> of the script mode, called when the editor closes a document:
  it tells the cache and touches nothing else.
\<close>

definition onDocumentRemoved :: "'c env \<Rightarrow> 'c host \<Rightarrow> TextDocument \<Rightarrow> 'c host" where
  "onDocumentRemoved E s document =
     s\<lparr>jsDocuments := jsDocuments_onDocumentRemoved E (jsDocuments s) document\<rparr>"

subsection \<open>The callbacks of the language service host\<close>

text \<open>JavaScript's conversion of an integral number to a string, as \<open>+\<close> applies it.\<close>

fun digitsOf :: "nat \<Rightarrow> string" where
  "digitsOf n =
     (if n < 10 then [char_of (48 + n)]
      else digitsOf (n div 10) @ [char_of (48 + n mod 10)])"

definition numberToString :: "int \<Rightarrow> string" where
  "numberToString i = (if i < 0 then CHR ''-'' # digitsOf (nat (- i)) else digitsOf (nat i))"

definition getScriptVersion :: "'c env \<Rightarrow> 'c host \<Rightarrow> string \<Rightarrow> string" where
  "getScriptVersion E s fileName =
     (if fileName = bridge_fileName E then ''0''
      else
        (let normalizedFileFsPath = getNormalizedFileFsPath E fileName in
         case versions s normalizedFileFsPath of
           None \<Rightarrow> ''0''
         | Some v \<Rightarrow> if v = 0 then ''0'' else digitsOf v))"

definition getScriptFileNames :: "'c host \<Rightarrow> string list" where
  "getScriptFileNames s = files s"

definition getCompilationSettings_allowJs :: "'c host \<Rightarrow> bool" where
  "getCompilationSettings_allowJs s = allowJs s"

text \<open>
  One element of the \<open>map\<close> of \<open>resolveModuleNames\<close>: what the callback returns or
  raises for one import, and the host state it leaves. \<open>Inr None\<close> is the
  \<open>undefined\<close> the host returns for an import it cannot resolve. In the third
  branch \<open>ts.sys.fileExists\<close> and \<open>ts.sys.readFile\<close> look at the same entry of the
  disk: the first asks whether there is one, the second, reached only when the path is
  not tracked, returns its text or throws. The text goes to the cache as a document of
  version 0 and languageId \<open>vue\<close>.
\<close>

definition candidatePath :: "'c env \<Rightarrow> string \<Rightarrow> string \<Rightarrow> string" where
  "candidatePath E containingFile name =
     uri_file_fsPath E (path_join E (path_dirname E containingFile) name)"

definition extensionOf :: "TextDocument \<Rightarrow> Extension" where
  "extensionOf doc = (if languageId doc = ''typescript'' then Ts else Js)"

definition resolveModuleName ::
  "'c env \<Rightarrow> disk \<Rightarrow> 'c host \<Rightarrow> string \<Rightarrow> string \<Rightarrow> (js_error + ResolvedModule option) \<times> 'c host" where
  "resolveModuleName E d s containingFile name =
     (if name = bridge_moduleName E then
        (Inr (Some \<lparr>resolvedFileName = bridge_fileName E, extension = Ts\<rparr>), s)
      else if path_isAbsolute E name \<or> \<not> isVue E name then
        (Inr (ts_resolveModuleName E name containingFile (allowJs s) d), s)
      else
        (let joined = path_join E (path_dirname E containingFile) name;
             resolved = uri_file_fsPath E joined
         in case d resolved of
              None \<Rightarrow> (Inr None, s)
            | Some onDisk \<Rightarrow>
               (case docs s resolved of
                  Some doc \<Rightarrow>
                    (Inr (Some \<lparr>resolvedFileName = resolved, extension = extensionOf doc\<rparr>), s)
                | None \<Rightarrow>
                   (case onDisk of
                      Unreadable \<Rightarrow> (Inl IOError, s)
                    | Readable content \<Rightarrow>
                       (let (doc, cache) = jsDocuments_get E (jsDocuments s)
                              (TextDocument_create (uri_file_toString E joined) ''vue'' 0 content)
                        in (Inr (Some \<lparr>resolvedFileName = resolved,
                                        extension = extensionOf doc\<rparr>),
                            s\<lparr>jsDocuments := cache\<rparr>))))))"

text \<open>
  \<open>moduleNames.map(...)\<close>: the imports are resolved in order, each in the state the
  one before left, and the first error ends the call.
\<close>

fun resolveModuleNames ::
  "'c env \<Rightarrow> disk \<Rightarrow> 'c host \<Rightarrow> string list \<Rightarrow> string
     \<Rightarrow> (js_error + ResolvedModule option list) \<times> 'c host" where
  "resolveModuleNames E d s [] containingFile = (Inr [], s)"
| "resolveModuleNames E d s (name # names) containingFile =
     (case resolveModuleName E d s containingFile name of
        (Inl e, s1) \<Rightarrow> (Inl e, s1)
      | (Inr r, s1) \<Rightarrow>
         (case resolveModuleNames E d s1 names containingFile of
            (Inl e, s2) \<Rightarrow> (Inl e, s2)
          | (Inr rs, s2) \<Rightarrow> (Inr (r # rs), s2)))"

text \<open>
  \<open>getScriptSnapshot\<close>: the snapshot object is determined by its text
  (\<open>getText\<close> is \<open>substring\<close> of it and \<open>getLength\<close> its length), which is what
  the model returns, or the error the read raises. Nothing in the callback catches.
\<close>

definition getScriptSnapshot :: "'c env \<Rightarrow> disk \<Rightarrow> 'c host \<Rightarrow> string \<Rightarrow> js_error + string" where
  "getScriptSnapshot E d s fileName =
     (if fileName = bridge_fileName E then Inr (bridge_content E)
      else
        (let normalizedFileFsPath = getNormalizedFileFsPath E fileName in
         case (case docs s normalizedFileFsPath of
                 Some doc \<Rightarrow> Inr (getText doc)
               | None \<Rightarrow>
                  (case sys_readFile d normalizedFileFsPath of
                     Inl e \<Rightarrow> Inl e
                   | Inr None \<Rightarrow> Inr ''''
                   | Inr (Some t) \<Rightarrow> Inr (if t = '''' then '''' else t))) of
           Inl e \<Rightarrow> Inl e
         | Inr txt \<Rightarrow> Inr (if isVue E fileName then parseVue E txt else txt)))"


subsection \<open>The feature queries of the script mode\<close>

text \<open>
  The script mode (\<open>javascript.ts\<close>) answers the editor's requests. Its nine
  guarded queries update the host with the document, ask whether the program holds
  the document's file, and only then query the compiler service and translate its
  answer. \<open>format\<close> and \<open>findComponents\<close> have no guard and are not modelled.
\<close>

datatype Position = Position (pos_line: int) (pos_character: int)

datatype LspRange = Range_create (range_start: Position) (range_end: Position)

datatype TextSpan = TextSpan (span_start: int) (span_length: int)

datatype ls_call =
    GetProgram
  | GetSyntacticDiagnostics string
  | GetSemanticDiagnostics string
  | GetCompletionsAtPosition string int
  | GetCompletionEntryDetails string int string
  | GetQuickInfoAtPosition string int
  | GetSignatureHelpItems string int
  | GetOccurrencesAtPosition string int
  | GetNavigationBarItems string
  | GetDefinitionAtPosition string int
  | GetReferencesAtPosition string int

text \<open>The compiler service's answers, as far as the queries read them.\<close>

type_synonym DisplayParts = "string list"

datatype ts_Diagnostic = ts_Diagnostic (diag_span: TextSpan) (messageText: string)

datatype ts_CompletionEntry =
  ts_CompletionEntry (entry_name: string) (entry_sortText: string) (entry_kind: string)

datatype ts_Details = ts_Details (displayParts: DisplayParts) (documentationParts: DisplayParts)

datatype ts_QuickInfo =
  ts_QuickInfo (info_displayParts: DisplayParts) (info_documentation: DisplayParts)
    (info_textSpan: TextSpan)

datatype ts_SignatureHelpItem =
  ts_SignatureHelpItem (prefixDisplayParts: DisplayParts) (parameters: "ts_Details list")
    (separatorDisplayParts: DisplayParts) (suffixDisplayParts: DisplayParts)

datatype ts_SignatureHelpItems =
  ts_SignatureHelpItems (selectedItemIndex: int) (argumentIndex: int)
    (help_items: "ts_SignatureHelpItem list")

datatype ts_Occurrence = ts_Occurrence (occ_textSpan: TextSpan) (isWriteAccess: bool)

datatype NavigationBarItem =
  NavigationBarItem (nav_text: string) (nav_kind: string) (spans: "TextSpan list")
    (childItems: "NavigationBarItem list")

record 'c service =
  program_getRootFileNames :: "'c host \<Rightarrow> disk \<Rightarrow> string list"
  getSyntacticDiagnostics :: "'c host \<Rightarrow> disk \<Rightarrow> string \<Rightarrow> ts_Diagnostic list"
  getSemanticDiagnostics :: "'c host \<Rightarrow> disk \<Rightarrow> string \<Rightarrow> ts_Diagnostic list"
  getCompletionsAtPosition :: "'c host \<Rightarrow> disk \<Rightarrow> string \<Rightarrow> int \<Rightarrow> ts_CompletionEntry list option"
  getCompletionEntryDetails :: "'c host \<Rightarrow> disk \<Rightarrow> string \<Rightarrow> int \<Rightarrow> string \<Rightarrow> ts_Details option"
  getQuickInfoAtPosition :: "'c host \<Rightarrow> disk \<Rightarrow> string \<Rightarrow> int \<Rightarrow> ts_QuickInfo option"
  getSignatureHelpItems :: "'c host \<Rightarrow> disk \<Rightarrow> string \<Rightarrow> int \<Rightarrow> ts_SignatureHelpItems option"
  getOccurrencesAtPosition :: "'c host \<Rightarrow> disk \<Rightarrow> string \<Rightarrow> int \<Rightarrow> ts_Occurrence list option"
  getNavigationBarItems :: "'c host \<Rightarrow> disk \<Rightarrow> string \<Rightarrow> NavigationBarItem list option"
  getDefinitionAtPosition :: "'c host \<Rightarrow> disk \<Rightarrow> string \<Rightarrow> int \<Rightarrow> TextSpan list option"
  getReferencesAtPosition :: "'c host \<Rightarrow> disk \<Rightarrow> string \<Rightarrow> int \<Rightarrow> TextSpan list option"

text \<open>The protocol's result shapes.\<close>

datatype DiagnosticSeverity = Severity_Error

datatype Diagnostic = Diagnostic LspRange DiagnosticSeverity string

datatype CompletionItemKind =
    Kind_Keyword | Kind_Variable | Kind_Field | Kind_Function | Kind_Enum | Kind_Module
  | Kind_Class | Kind_Interface | Kind_File | Kind_Property

datatype CompletionData =
  CompletionData (data_languageId: string) (data_uri: string) (data_offset: int)

datatype TextEdit = TextEdit_replace LspRange string

record CompletionItem =
  item_uri :: "string option"
  item_position :: "Position option"
  label :: string
  sortText :: "string option"
  kind :: "CompletionItemKind option"
  textEdit :: "TextEdit option"
  data :: "CompletionData option"
  detail :: "string option"
  documentation :: "string option"

datatype CompletionList = CompletionList (isIncomplete: bool) (items: "CompletionItem list")

datatype MarkedString = MarkedString (language: string) (marked_value: string)

datatype Hover = Hover (hover_range: "LspRange option") (contents: "MarkedString list")

datatype ParameterInformation = ParameterInformation string string

datatype SignatureInformation =
  SignatureInformation (sig_label: string) (sig_documentation: "string option")
    (sig_parameters: "ParameterInformation list")

datatype SignatureHelp =
  SignatureHelp (activeSignature: "int option") (activeParameter: "int option")
    (signatures: "SignatureInformation list")

datatype DocumentHighlightKind = Highlight_Text | Highlight_Write

datatype DocumentHighlight = DocumentHighlight LspRange DocumentHighlightKind

datatype SymbolKind =
    Sym_Variable | Sym_Function | Sym_Enum | Sym_Module | Sym_Class | Sym_Interface
  | Sym_Method | Sym_Property

datatype Location = Location (loc_uri: string) (loc_range: LspRange)

datatype SymbolInformation =
  SymbolInformation (sym_name: string) (sym_kind: SymbolKind) (sym_location: Location)
    (containerName: "string option")

text \<open>
  What the script mode takes from outside: the document's offset conversions, the
  word finder with the mode's word pattern, the compiler's text helpers and the
  null results of the null mode.
\<close>

record feature_env =
  positionAt :: "TextDocument \<Rightarrow> int \<Rightarrow> Position"
  offsetAt :: "TextDocument \<Rightarrow> Position \<Rightarrow> int"
  getWordAtText :: "string \<Rightarrow> int \<Rightarrow> TextSpan"
  displayPartsToString :: "DisplayParts \<Rightarrow> string"
  flattenDiagnosticMessageText :: "string \<Rightarrow> string \<Rightarrow> string"
  NULL_SIGNATURE :: SignatureHelp
  NULL_COMPLETION :: CompletionItem

subsection \<open>Helpers of the script mode\<close>

definition getFilePath :: "'c env \<Rightarrow> string \<Rightarrow> string" where
  "getFilePath E documentUri =
     (if is_windows E then drop 1 (uri_parse_path E documentUri)
      else uri_parse_path E documentUri)"

definition languageServiceIncludesFile ::
  "'c env \<Rightarrow> 'c service \<Rightarrow> disk \<Rightarrow> 'c host \<Rightarrow> string \<Rightarrow> bool" where
  "languageServiceIncludesFile E ls d s documentUri =
     (let filePaths = program_getRootFileNames ls s d;
          filePath = getFilePath E documentUri
      in filePath \<in> set filePaths)"

text \<open>
  The queries read a variable \<open>currentTextDocument\<close>. The script mode neither
  declares nor imports that name (the host's variable of the name is local to
  \<open>createLanguageService\<close>), so evaluating it raises \<open>ReferenceError\<close>. The model
  keeps the expression where the source has it, with that outcome.
\<close>

definition mode_currentTextDocument :: "js_error + TextDocument" where
  "mode_currentTextDocument = Inl ReferenceError"

text \<open>
  \<open>convertRange(document, span)\<close>, given the outcome of evaluating its first
  argument: an argument that raises keeps the call from happening.
\<close>

definition convertRange ::
  "feature_env \<Rightarrow> js_error + TextDocument \<Rightarrow> TextSpan \<Rightarrow> js_error + LspRange" where
  "convertRange F document span =
     (case document of
        Inl e \<Rightarrow> Inl e
      | Inr doc \<Rightarrow>
          Inr (Range_create (positionAt F doc (span_start span))
                 (positionAt F doc (span_start span + span_length span))))"

text \<open>\<open>Array.prototype.map\<close> with a callback that may throw.\<close>

fun mapE :: "('a \<Rightarrow> js_error + 'b) \<Rightarrow> 'a list \<Rightarrow> js_error + 'b list" where
  "mapE f [] = Inr []"
| "mapE f (x # xs) =
     (case f x of
        Inl e \<Rightarrow> Inl e
      | Inr y \<Rightarrow> (case mapE f xs of Inl e \<Rightarrow> Inl e | Inr ys \<Rightarrow> Inr (y # ys)))"

definition convertKind :: "string \<Rightarrow> CompletionItemKind" where
  "convertKind k =
     (if k = ''primitive type'' \<or> k = ''keyword'' then Kind_Keyword
      else if k = ''var'' \<or> k = ''local var'' then Kind_Variable
      else if k = ''property'' \<or> k = ''getter'' \<or> k = ''setter'' then Kind_Field
      else if k = ''function'' \<or> k = ''method'' \<or> k = ''construct'' \<or> k = ''call''
              \<or> k = ''index'' then Kind_Function
      else if k = ''enum'' then Kind_Enum
      else if k = ''module'' then Kind_Module
      else if k = ''class'' then Kind_Class
      else if k = ''interface'' then Kind_Interface
      else if k = ''warning'' then Kind_File
      else Kind_Property)"

definition convertSymbolKind :: "string \<Rightarrow> SymbolKind" where
  "convertSymbolKind k =
     (if k = ''var'' \<or> k = ''local var'' \<or> k = ''const'' then Sym_Variable
      else if k = ''function'' \<or> k = ''local function'' then Sym_Function
      else if k = ''enum'' then Sym_Enum
      else if k = ''module'' then Sym_Module
      else if k = ''class'' then Sym_Class
      else if k = ''interface'' then Sym_Interface
      else if k = ''method'' then Sym_Method
      else if k = ''property'' \<or> k = ''getter'' \<or> k = ''setter'' then Sym_Property
      else Sym_Variable)"

text \<open>
  A query's outcome: its result or the error it throws, the calls it made on the
  compiler service, in order, and the host state its update step left.
\<close>

type_synonym ('a, 'c) outcome = "(js_error + 'a) \<times> ls_call list \<times> 'c host"

subsection \<open>doValidation\<close>

definition doValidation ::
  "feature_env \<Rightarrow> 'c env \<Rightarrow> 'c service \<Rightarrow> disk \<Rightarrow> 'c host \<Rightarrow> TextDocument
     \<Rightarrow> (Diagnostic list, 'c) outcome" where
  "doValidation F E ls d s doc =
     (let s' = updateCurrentTextDocument E s doc in
      if \<not> languageServiceIncludesFile E ls d s' (uri doc) then (Inr [], [GetProgram], s')
      else
        (let fileFsPath = getFileFsPath E (uri doc);
             diagnostics = getSyntacticDiagnostics ls s' d fileFsPath
                           @ getSemanticDiagnostics ls s' d fileFsPath
         in (mapE (\<lambda>diag.
                     case convertRange F mode_currentTextDocument (diag_span diag) of
                       Inl e \<Rightarrow> Inl e
                     | Inr r \<Rightarrow> Inr (Diagnostic r Severity_Error
                                  (flattenDiagnosticMessageText F (messageText diag) [CHR 10])))
               diagnostics,
             [GetProgram, GetSyntacticDiagnostics fileFsPath, GetSemanticDiagnostics fileFsPath],
             s')))"

subsection \<open>doComplete and doResolve\<close>

definition emptyCompletionList :: CompletionList where
  "emptyCompletionList = CompletionList False []"

definition doComplete ::
  "feature_env \<Rightarrow> 'c env \<Rightarrow> 'c service \<Rightarrow> disk \<Rightarrow> 'c host \<Rightarrow> TextDocument \<Rightarrow> Position
     \<Rightarrow> (CompletionList, 'c) outcome" where
  "doComplete F E ls d s doc position =
     (let s' = updateCurrentTextDocument E s doc in
      if \<not> languageServiceIncludesFile E ls d s' (uri doc)
      then (Inr emptyCompletionList, [GetProgram], s')
      else
        (let fileFsPath = getFileFsPath E (uri doc) in
         case mode_currentTextDocument of
           Inl e \<Rightarrow> (Inl e, [GetProgram], s')
         | Inr cur \<Rightarrow>
            (let offset = offsetAt F cur position;
                 calls = [GetProgram, GetCompletionsAtPosition fileFsPath offset]
             in case getCompletionsAtPosition ls s' d fileFsPath offset of
                  None \<Rightarrow> (Inr emptyCompletionList, calls, s')
                | Some entries \<Rightarrow>
                   (case convertRange F mode_currentTextDocument
                           (getWordAtText F (getText cur) offset) of
                      Inl e \<Rightarrow> (Inl e, calls, s')
                    | Inr replaceRange \<Rightarrow>
                       (Inr (CompletionList False
                          (map (\<lambda>entry.
                             \<lparr>item_uri = Some (uri doc),
                              item_position = Some position,
                              label = entry_name entry,
                              sortText = Some (entry_sortText entry),
                              kind = Some (convertKind (entry_kind entry)),
                              textEdit = Some (TextEdit_replace replaceRange (entry_name entry)),
                              data = Some (CompletionData ''javascript'' (uri doc) offset),
                              detail = None,
                              documentation = None\<rparr>) entries)),
                        calls, s')))))"

definition doResolve ::
  "feature_env \<Rightarrow> 'c env \<Rightarrow> 'c service \<Rightarrow> disk \<Rightarrow> 'c host \<Rightarrow> TextDocument \<Rightarrow> CompletionItem
     \<Rightarrow> (CompletionItem, 'c) outcome" where
  "doResolve F E ls d s doc item =
     (let s' = updateCurrentTextDocument E s doc in
      if \<not> languageServiceIncludesFile E ls d s' (uri doc)
      then (Inr (NULL_COMPLETION F), [GetProgram], s')
      else
        (let fileFsPath = getFileFsPath E (uri doc) in
         case data item of
           None \<Rightarrow> (Inl TypeError, [GetProgram], s')
         | Some dat \<Rightarrow>
            (let calls = [GetProgram,
                          GetCompletionEntryDetails fileFsPath (data_offset dat) (label item)]
             in case getCompletionEntryDetails ls s' d fileFsPath (data_offset dat) (label item) of
                  Some details \<Rightarrow>
                    (Inr (item\<lparr>detail := Some (displayPartsToString F (displayParts details)),
                               documentation :=
                                 Some (displayPartsToString F (documentationParts details)),
                               data := None\<rparr>),
                     calls, s')
                | None \<Rightarrow> (Inr item, calls, s'))))"

subsection \<open>doHover\<close>

definition emptyHover :: Hover where
  "emptyHover = Hover None []"

definition doHover ::
  "feature_env \<Rightarrow> 'c env \<Rightarrow> 'c service \<Rightarrow> disk \<Rightarrow> 'c host \<Rightarrow> TextDocument \<Rightarrow> Position
     \<Rightarrow> (Hover, 'c) outcome" where
  "doHover F E ls d s doc position =
     (let s' = updateCurrentTextDocument E s doc in
      if \<not> languageServiceIncludesFile E ls d s' (uri doc)
      then (Inr emptyHover, [GetProgram], s')
      else
        (let fileFsPath = getFileFsPath E (uri doc) in
         case mode_currentTextDocument of
           Inl e \<Rightarrow> (Inl e, [GetProgram], s')
         | Inr cur \<Rightarrow>
            (let offset = offsetAt F cur position;
                 calls = [GetProgram, GetQuickInfoAtPosition fileFsPath offset]
             in case getQuickInfoAtPosition ls s' d fileFsPath offset of
                  Some info \<Rightarrow>
                    (let display = displayPartsToString F (info_displayParts info);
                         docText = displayPartsToString F (info_documentation info);
                         hoverContents =
                           (if docText \<noteq> [] then [docText, [CHR 10], display] else [display]);
                         markedContents = map (\<lambda>c. MarkedString ''js'' c) hoverContents
                     in case convertRange F mode_currentTextDocument (info_textSpan info) of
                          Inl e \<Rightarrow> (Inl e, calls, s')
                        | Inr r \<Rightarrow> (Inr (Hover (Some r) markedContents), calls, s'))
                | None \<Rightarrow> (Inr emptyHover, calls, s'))))"

subsection \<open>doSignatureHelp\<close>

text \<open>
  The label of one signature: the parameters' labels, with the separator after each
  but the last.
\<close>

fun parameterLabels :: "feature_env \<Rightarrow> DisplayParts \<Rightarrow> ts_Details list \<Rightarrow> string" where
  "parameterLabels F sep [] = []"
| "parameterLabels F sep [p] = displayPartsToString F (displayParts p)"
| "parameterLabels F sep (p # q # ps) =
     displayPartsToString F (displayParts p) @ displayPartsToString F sep
       @ parameterLabels F sep (q # ps)"

definition signatureOf :: "feature_env \<Rightarrow> ts_SignatureHelpItem \<Rightarrow> SignatureInformation" where
  "signatureOf F item =
     SignatureInformation
       (displayPartsToString F (prefixDisplayParts item)
          @ parameterLabels F (separatorDisplayParts item) (parameters item)
          @ displayPartsToString F (suffixDisplayParts item))
       None
       (map (\<lambda>p. ParameterInformation (displayPartsToString F (displayParts p))
                   (displayPartsToString F (documentationParts p)))
          (parameters item))"

definition doSignatureHelp ::
  "feature_env \<Rightarrow> 'c env \<Rightarrow> 'c service \<Rightarrow> disk \<Rightarrow> 'c host \<Rightarrow> TextDocument \<Rightarrow> Position
     \<Rightarrow> (SignatureHelp, 'c) outcome" where
  "doSignatureHelp F E ls d s doc position =
     (let s' = updateCurrentTextDocument E s doc in
      if \<not> languageServiceIncludesFile E ls d s' (uri doc)
      then (Inr (NULL_SIGNATURE F), [GetProgram], s')
      else
        (let fileFsPath = getFileFsPath E (uri doc) in
         case mode_currentTextDocument of
           Inl e \<Rightarrow> (Inl e, [GetProgram], s')
         | Inr cur \<Rightarrow>
            (let offset = offsetAt F cur position;
                 calls = [GetProgram, GetSignatureHelpItems fileFsPath offset]
             in case getSignatureHelpItems ls s' d fileFsPath offset of
                  None \<Rightarrow> (Inr (NULL_SIGNATURE F), calls, s')
                | Some signHelp \<Rightarrow>
                    (Inr (SignatureHelp (Some (selectedItemIndex signHelp))
                            (Some (argumentIndex signHelp))
                            (map (signatureOf F) (help_items signHelp))),
                     calls, s'))))"

subsection \<open>findDocumentHighlight, findDefinition and findReferences\<close>

definition findDocumentHighlight ::
  "feature_env \<Rightarrow> 'c env \<Rightarrow> 'c service \<Rightarrow> disk \<Rightarrow> 'c host \<Rightarrow> TextDocument \<Rightarrow> Position
     \<Rightarrow> (DocumentHighlight list, 'c) outcome" where
  "findDocumentHighlight F E ls d s doc position =
     (let s' = updateCurrentTextDocument E s doc in
      if \<not> languageServiceIncludesFile E ls d s' (uri doc) then (Inr [], [GetProgram], s')
      else
        (let fileFsPath = getFileFsPath E (uri doc) in
         case mode_currentTextDocument of
           Inl e \<Rightarrow> (Inl e, [GetProgram], s')
         | Inr cur \<Rightarrow>
            (let offset = offsetAt F cur position;
                 calls = [GetProgram, GetOccurrencesAtPosition fileFsPath offset]
             in case getOccurrencesAtPosition ls s' d fileFsPath offset of
                  Some occurrences \<Rightarrow>
                    (mapE (\<lambda>entry.
                        case convertRange F mode_currentTextDocument (occ_textSpan entry) of
                          Inl e \<Rightarrow> Inl e
                        | Inr r \<Rightarrow> Inr (DocumentHighlight r
                             (if isWriteAccess entry then Highlight_Write else Highlight_Text)))
                       occurrences,
                     calls, s')
                | None \<Rightarrow> (Inr [], calls, s'))))"

definition locationsOf ::
  "feature_env \<Rightarrow> TextDocument \<Rightarrow> TextSpan list \<Rightarrow> js_error + Location list" where
  "locationsOf F doc textSpans =
     mapE (\<lambda>textSpan.
        case convertRange F mode_currentTextDocument textSpan of
          Inl e \<Rightarrow> Inl e
        | Inr r \<Rightarrow> Inr (Location (uri doc) r)) textSpans"

definition findDefinition ::
  "feature_env \<Rightarrow> 'c env \<Rightarrow> 'c service \<Rightarrow> disk \<Rightarrow> 'c host \<Rightarrow> TextDocument \<Rightarrow> Position
     \<Rightarrow> (Location list, 'c) outcome" where
  "findDefinition F E ls d s doc position =
     (let s' = updateCurrentTextDocument E s doc in
      if \<not> languageServiceIncludesFile E ls d s' (uri doc) then (Inr [], [GetProgram], s')
      else
        (let fileFsPath = getFileFsPath E (uri doc) in
         case mode_currentTextDocument of
           Inl e \<Rightarrow> (Inl e, [GetProgram], s')
         | Inr cur \<Rightarrow>
            (let offset = offsetAt F cur position;
                 calls = [GetProgram, GetDefinitionAtPosition fileFsPath offset]
             in case getDefinitionAtPosition ls s' d fileFsPath offset of
                  None \<Rightarrow> (Inr [], calls, s')
                | Some definition \<Rightarrow> (locationsOf F doc definition, calls, s'))))"

definition findReferences ::
  "feature_env \<Rightarrow> 'c env \<Rightarrow> 'c service \<Rightarrow> disk \<Rightarrow> 'c host \<Rightarrow> TextDocument \<Rightarrow> Position
     \<Rightarrow> (Location list, 'c) outcome" where
  "findReferences F E ls d s doc position =
     (let s' = updateCurrentTextDocument E s doc in
      if \<not> languageServiceIncludesFile E ls d s' (uri doc) then (Inr [], [GetProgram], s')
      else
        (let fileFsPath = getFileFsPath E (uri doc) in
         case mode_currentTextDocument of
           Inl e \<Rightarrow> (Inl e, [GetProgram], s')
         | Inr cur \<Rightarrow>
            (let offset = offsetAt F cur position;
                 calls = [GetProgram, GetReferencesAtPosition fileFsPath offset]
             in case getReferencesAtPosition ls s' d fileFsPath offset of
                  Some references \<Rightarrow> (locationsOf F doc references, calls, s')
                | None \<Rightarrow> (Inr [], calls, s'))))"

subsection \<open>findDocumentSymbols\<close>

text \<open>
  \<open>collectSymbols\<close> walks the navigation tree; \<open>existing\<close> (the keys set to
  \<open>true\<close>) and \<open>result\<close> are the two variables it updates. An item without a
  span makes \<open>item.spans[0].start\<close> throw.
\<close>

fun collectSymbols ::
  "feature_env \<Rightarrow> TextDocument \<Rightarrow> NavigationBarItem \<Rightarrow> string option
     \<Rightarrow> string list \<times> SymbolInformation list \<Rightarrow> js_error + string list \<times> SymbolInformation list"
and collectChildren ::
  "feature_env \<Rightarrow> TextDocument \<Rightarrow> NavigationBarItem list \<Rightarrow> string option
     \<Rightarrow> string list \<times> SymbolInformation list \<Rightarrow> js_error + string list \<times> SymbolInformation list"
where
  "collectSymbols F doc (NavigationBarItem txt knd sps children) containerLabel (existing, result) =
     (case sps of
        [] \<Rightarrow> Inl TypeError
      | sp # _ \<Rightarrow>
         (let sig = txt @ knd @ numberToString (span_start sp) in
          if knd \<noteq> ''script'' \<and> sig \<notin> set existing then
            (case convertRange F mode_currentTextDocument sp of
               Inl e \<Rightarrow> Inl e
             | Inr r \<Rightarrow>
                collectChildren F doc children (Some txt)
                  (sig # existing,
                   result @ [SymbolInformation txt (convertSymbolKind knd)
                               (Location (uri doc) r) containerLabel]))
          else collectChildren F doc children containerLabel (existing, result)))"
| "collectChildren F doc [] containerLabel acc = Inr acc"
| "collectChildren F doc (child # rest) containerLabel acc =
     (case collectSymbols F doc child containerLabel acc of
        Inl e \<Rightarrow> Inl e
      | Inr acc' \<Rightarrow> collectChildren F doc rest containerLabel acc')"

definition findDocumentSymbols ::
  "feature_env \<Rightarrow> 'c env \<Rightarrow> 'c service \<Rightarrow> disk \<Rightarrow> 'c host \<Rightarrow> TextDocument
     \<Rightarrow> (SymbolInformation list, 'c) outcome" where
  "findDocumentSymbols F E ls d s doc =
     (let s' = updateCurrentTextDocument E s doc in
      if \<not> languageServiceIncludesFile E ls d s' (uri doc) then (Inr [], [GetProgram], s')
      else
        (let fileFsPath = getFileFsPath E (uri doc);
             calls = [GetProgram, GetNavigationBarItems fileFsPath]
         in case getNavigationBarItems ls s' d fileFsPath of
              Some navItems \<Rightarrow>
                (case collectChildren F doc navItems None ([], []) of
                   Inl e \<Rightarrow> (Inl e, calls, s')
                 | Inr (existing, result) \<Rightarrow> (Inr result, calls, s'))
            | None \<Rightarrow> (Inr [], calls, s')))"


subsection \<open>A sample project\<close>

text \<open>
  One concrete choice of everything the host takes from outside, for the instances
  below: uris are \<open>file://\<close> followed by the path, paths are POSIX paths, a document
  whose text starts with \<open>ts\<close> has a typed script block, and the compiler service
  knows the root files the host hands it and answers nothing else. The sample cache
  keeps, per uri, the script document it last computed together with the version and
  languageId of the document it computed it for; it answers from that entry when both
  agree with the document it is asked about, and computes and stores a new one
  otherwise. Removing a document drops its entry.
\<close>

type_synonym sample_cache = "string \<rightharpoonup> int \<times> string \<times> TextDocument"

definition sample_scriptOf :: "TextDocument \<Rightarrow> TextDocument" where
  "sample_scriptOf doc =
     doc\<lparr>languageId := (if take 2 (getText doc) = ''ts'' then ''typescript'' else ''javascript'')\<rparr>"

definition sample_cache_get :: "sample_cache \<Rightarrow> TextDocument \<Rightarrow> TextDocument \<times> sample_cache" where
  "sample_cache_get cache doc =
     (case cache (uri doc) of
        Some (v, l, model) \<Rightarrow>
          if v = version doc \<and> l = languageId doc then (model, cache)
          else (sample_scriptOf doc,
                cache(uri doc \<mapsto> (version doc, languageId doc, sample_scriptOf doc)))
      | None \<Rightarrow>
          (sample_scriptOf doc,
           cache(uri doc \<mapsto> (version doc, languageId doc, sample_scriptOf doc))))"

definition sample_env :: "sample_cache env" where
  "sample_env =
     \<lparr>uri_parse_fsPath = drop 7,
      uri_parse_path = drop 7,
      uri_file_fsPath = (\<lambda>f. f),
      uri_file_toString = (\<lambda>f. ''file://'' @ f),
      path_isAbsolute = (\<lambda>n. case n of [] \<Rightarrow> False | c # _ \<Rightarrow> c = CHR ''/''),
      path_dirname = (\<lambda>p. rev (drop 1 (dropWhile (\<lambda>c. c \<noteq> CHR ''/'') (rev p)))),
      path_join = (\<lambda>a b. a @ ''/'' @ (if take 2 b = ''./'' then drop 2 b else b)),
      isVue = (\<lambda>f. endsWith f ''.vue''),
      parseVue = (\<lambda>t. replicate (min 3 (length t)) (CHR '' '') @ drop 3 t),
      jsDocuments_get = sample_cache_get,
      jsDocuments_onDocumentRemoved = (\<lambda>cache doc. cache(uri doc := None)),
      bridge_fileName = ''vue-temp/vue-editor-bridge.ts'',
      bridge_moduleName = ''vue-editor-bridge'',
      bridge_content = ''export default function(o) { return o }'',
      ts_resolveModuleName = (\<lambda>name containingFile aj d. None),
      is_windows = False\<rparr>"

definition sample_feature_env :: feature_env where
  "sample_feature_env =
     \<lparr>positionAt = (\<lambda>doc off. Position 0 off),
      offsetAt = (\<lambda>doc pos. pos_character pos),
      getWordAtText = (\<lambda>t off. TextSpan off 0),
      displayPartsToString = concat,
      flattenDiagnosticMessageText = (\<lambda>m nl. m),
      NULL_SIGNATURE = SignatureHelp None None [],
      NULL_COMPLETION =
        \<lparr>item_uri = None, item_position = None, label = [], sortText = None, kind = None,
         textEdit = None, data = None, detail = None, documentation = None\<rparr>\<rparr>"

definition sample_service :: "sample_cache service" where
  "sample_service =
     \<lparr>program_getRootFileNames = (\<lambda>s d. getScriptFileNames s),
      getSyntacticDiagnostics = (\<lambda>s d f. []),
      getSemanticDiagnostics = (\<lambda>s d f. []),
      getCompletionsAtPosition = (\<lambda>s d f off. None),
      getCompletionEntryDetails = (\<lambda>s d f off l. None),
      getQuickInfoAtPosition = (\<lambda>s d f off. None),
      getSignatureHelpItems = (\<lambda>s d f off. None),
      getOccurrencesAtPosition = (\<lambda>s d f off. None),
      getNavigationBarItems = (\<lambda>s d f. None),
      getDefinitionAtPosition = (\<lambda>s d f off. None),
      getReferencesAtPosition = (\<lambda>s d f off. None)\<rparr>"

definition doc_a :: TextDocument where
  "doc_a = \<lparr>uri = ''file:///w/a.vue'', languageId = ''vue'', version = 1,
            getText = ''js import b from ./b.vue''\<rparr>"

definition doc_a_ts :: TextDocument where
  "doc_a_ts = \<lparr>uri = ''file:///w/a.vue'', languageId = ''vue'', version = 2,
               getText = ''ts import b from ./b.vue''\<rparr>"

text \<open>\<open>a\<close> as the editor opens it again, at version 1, after its text changed on disk.\<close>

definition doc_a_reopened :: TextDocument where
  "doc_a_reopened = \<lparr>uri = ''file:///w/a.vue'', languageId = ''vue'', version = 1,
                     getText = ''ts import b from ./b.vue''\<rparr>"

definition doc_b :: TextDocument where
  "doc_b = \<lparr>uri = ''file:///w/b.vue'', languageId = ''vue'', version = 1,
            getText = ''js export default {}''\<rparr>"

definition doc_c :: TextDocument where
  "doc_c = \<lparr>uri = ''file:///w/c.js'', languageId = ''javascript'', version = 1,
            getText = ''js var c''\<rparr>"

definition sample_init :: "string list \<Rightarrow> bool \<Rightarrow> sample_cache host" where
  "sample_init fileNames aj = init_host fileNames aj Map.empty"

definition host_a :: "sample_cache host" where
  "host_a = updateCurrentTextDocument sample_env (sample_init [] True) doc_a"

definition host_b :: "sample_cache host" where
  "host_b = updateCurrentTextDocument sample_env (sample_init [] True) doc_b"

text \<open>\<open>a\<close> opened and closed again.\<close>

definition host_a_closed :: "sample_cache host" where
  "host_a_closed = onDocumentRemoved sample_env host_a doc_a"

text \<open>
  Three disks: \<open>b.vue\<close> with a typed script block, the same file rewritten with an
  untyped one, and the file present but not readable.
\<close>

definition disk_b :: disk where
  "disk_b = [''/w/b.vue'' \<mapsto> Readable ''ts export default {}'']"

definition disk_b_js :: disk where
  "disk_b_js = [''/w/b.vue'' \<mapsto> Readable ''js export default {}'']"

definition disk_b_unreadable :: disk where
  "disk_b_unreadable = [''/w/b.vue'' \<mapsto> Unreadable]"

text \<open>The host after \<open>a\<close>'s update and one resolution of \<open>./b.vue\<close> on the first disk.\<close>

definition host_a_resolved :: "sample_cache host" where
  "host_a_resolved = snd (resolveModuleName sample_env disk_b host_a ''/w/a.vue'' ''./b.vue'')"


section \<open>Properties\<close>

subsection \<open>What an update changes\<close>

lemma accepted_addFile [simp]: "accepted (addFile s p) doc = accepted s doc"
  by (simp add: accepted_def addFile_def)

lemma docs_addFile [simp]: "docs (addFile s p) = docs s"
  by (simp add: addFile_def)

lemma versions_addFile [simp]: "versions (addFile s p) = versions s"
  by (simp add: addFile_def)

lemma versionOf_addFile [simp]: "versionOf (addFile s p) q = versionOf s q"
  by (simp add: versionOf_def)

lemma allowJs_addFile [simp]: "allowJs (addFile s p) = allowJs s"
  by (simp add: addFile_def)

lemma cleanups_addFile [simp]: "cleanups (addFile s p) = cleanups s"
  by (simp add: addFile_def)

lemma current_addFile [simp]: "currentTextDocument (addFile s p) = currentTextDocument s"
  by (simp add: addFile_def)

lemma jsDocuments_addFile [simp]: "jsDocuments (addFile s p) = jsDocuments s"
  by (simp add: addFile_def)

lemma files_addFile:
  "files (addFile s p) =
     (if docs s p = None \<and> endsWith p ''.vue'' then files s @ [p] else files s)"
  by (simp add: addFile_def)

lemma docs_languageChange [simp]: "docs (languageChange s c l) = docs s"
  by (simp add: languageChange_def split: option.splits)

lemma versions_languageChange [simp]: "versions (languageChange s c l) = versions s"
  by (simp add: languageChange_def split: option.splits)

lemma versionOf_languageChange [simp]: "versionOf (languageChange s c l) q = versionOf s q"
  by (simp add: versionOf_def)

lemma files_languageChange [simp]: "files (languageChange s c l) = files s"
  by (simp add: languageChange_def split: option.splits)

lemma files_update:
  "files (updateCurrentTextDocument E s doc) = files (addFile s (getFileFsPath E (uri doc)))"
  by (simp add: updateCurrentTextDocument_def Let_def case_prod_beta)

lemma docs_update:
  "docs (updateCurrentTextDocument E s doc) =
     (if accepted s doc then (docs s)(getFileFsPath E (uri doc) \<mapsto> scriptDocument E s doc)
      else docs s)"
  by (simp add: updateCurrentTextDocument_def Let_def case_prod_beta scriptDocument_def)

lemma versions_update:
  "versions (updateCurrentTextDocument E s doc) =
     (if accepted s doc
      then (versions s)(getFileFsPath E (uri doc) \<mapsto>
             versionOf s (getFileFsPath E (uri doc)) + 1)
      else versions s)"
  by (simp add: updateCurrentTextDocument_def Let_def case_prod_beta)

lemma current_update:
  "currentTextDocument (updateCurrentTextDocument E s doc) =
     (if accepted s doc then Some (scriptDocument E s doc) else currentTextDocument s)"
  by (simp add: updateCurrentTextDocument_def Let_def case_prod_beta scriptDocument_def)

lemma jsDocuments_update:
  "jsDocuments (updateCurrentTextDocument E s doc) =
     (if accepted s doc then snd (jsDocuments_get E (jsDocuments s) doc) else jsDocuments s)"
  by (simp add: updateCurrentTextDocument_def Let_def case_prod_beta)

lemma cleanups_update:
  "cleanups (updateCurrentTextDocument E s doc) =
     (if accepted s doc then
        cleanups (languageChange (addFile s (getFileFsPath E (uri doc))) (scriptDocument E s doc)
                    (docs s (getFileFsPath E (uri doc))))
      else cleanups s)"
  by (simp add: updateCurrentTextDocument_def Let_def case_prod_beta scriptDocument_def)

lemma allowJs_update:
  "allowJs (updateCurrentTextDocument E s doc) =
     (if accepted s doc then
        allowJs (languageChange (addFile s (getFileFsPath E (uri doc))) (scriptDocument E s doc)
                   (docs s (getFileFsPath E (uri doc))))
      else allowJs s)"
  by (simp add: updateCurrentTextDocument_def Let_def case_prod_beta scriptDocument_def)

lemma versionOf_update:
  "versionOf (updateCurrentTextDocument E s doc) p =
     (if accepted s doc \<and> p = getFileFsPath E (uri doc) then versionOf s p + 1
      else versionOf s p)"
  by (simp add: versionOf_def versions_update)

text \<open>After any update there is a current document.\<close>

lemma current_update_Some:
  "\<exists>c. currentTextDocument (updateCurrentTextDocument E s doc) = Some c"
  by (cases "currentTextDocument s") (auto simp: current_update accepted_def)

subsection \<open>The sample project, evaluated\<close>

lemma sample_path_a: "getFileFsPath sample_env (uri doc_a) = ''/w/a.vue''"
  by (simp add: getFileFsPath_def sample_env_def doc_a_def)

lemma sample_path_a_ts: "getFileFsPath sample_env (uri doc_a_ts) = ''/w/a.vue''"
  by (simp add: getFileFsPath_def sample_env_def doc_a_ts_def)

lemma sample_path_a_reopened: "getFileFsPath sample_env (uri doc_a_reopened) = ''/w/a.vue''"
  by (simp add: getFileFsPath_def sample_env_def doc_a_reopened_def)

lemma sample_path_b: "getFileFsPath sample_env (uri doc_b) = ''/w/b.vue''"
  by (simp add: getFileFsPath_def sample_env_def doc_b_def)

lemma sample_path_c: "getFileFsPath sample_env (uri doc_c) = ''/w/c.js''"
  by (simp add: getFileFsPath_def sample_env_def doc_c_def)

lemma sample_script_a: "sample_scriptOf doc_a = doc_a\<lparr>languageId := ''javascript''\<rparr>"
  by (simp add: sample_scriptOf_def doc_a_def)

lemma sample_script_a_ts: "sample_scriptOf doc_a_ts = doc_a_ts\<lparr>languageId := ''typescript''\<rparr>"
  by (simp add: sample_scriptOf_def doc_a_ts_def)

lemma sample_script_b: "sample_scriptOf doc_b = doc_b\<lparr>languageId := ''javascript''\<rparr>"
  by (simp add: sample_scriptOf_def doc_b_def)

lemma sample_get_miss:
  "cache (uri doc) = None \<Longrightarrow>
   jsDocuments_get sample_env cache doc =
     (sample_scriptOf doc, cache(uri doc \<mapsto> (version doc, languageId doc, sample_scriptOf doc)))"
  by (simp add: sample_env_def sample_cache_get_def)

lemma sample_get_stale:
  "cache (uri doc) = Some (v, l, model) \<Longrightarrow> v \<noteq> version doc \<Longrightarrow>
   jsDocuments_get sample_env cache doc =
     (sample_scriptOf doc, cache(uri doc \<mapsto> (version doc, languageId doc, sample_scriptOf doc)))"
  by (simp add: sample_env_def sample_cache_get_def)

lemma sample_get_hit:
  "cache (uri doc) = Some (version doc, languageId doc, model) \<Longrightarrow>
   jsDocuments_get sample_env cache doc = (model, cache)"
  by (simp add: sample_env_def sample_cache_get_def)

lemma accepted_init: "accepted (init_host fs aj c) doc"
  by (simp add: accepted_def init_host_def)

lemma versionOf_init: "versionOf (init_host fs aj c) p = 0"
  by (simp add: versionOf_def init_host_def)

lemma docs_init: "docs (init_host fs aj c) = Map.empty"
  by (simp add: init_host_def)

lemma files_init: "files (init_host fs aj c) = fs"
  by (simp add: init_host_def)

lemma versions_init: "versions (init_host fs aj c) = Map.empty"
  by (simp add: init_host_def)

lemma jsDocuments_init: "jsDocuments (init_host fs aj c) = c"
  by (simp add: init_host_def)

lemma script_init_a:
  "scriptDocument sample_env (sample_init fs aj) doc_a = doc_a\<lparr>languageId := ''javascript''\<rparr>"
  by (simp add: scriptDocument_def sample_init_def jsDocuments_init sample_get_miss
      sample_script_a)

lemma script_init_b:
  "scriptDocument sample_env (sample_init fs aj) doc_b = doc_b\<lparr>languageId := ''javascript''\<rparr>"
  by (simp add: scriptDocument_def sample_init_def jsDocuments_init sample_get_miss
      sample_script_b)

lemma current_host_a: "currentTextDocument host_a = Some (doc_a\<lparr>languageId := ''javascript''\<rparr>)"
  by (simp add: host_a_def sample_init_def current_update accepted_init
      script_init_a [unfolded sample_init_def])

lemma not_accepted_host_a: "\<not> accepted host_a doc_a"
  by (simp add: accepted_def current_host_a)

lemma accepted_host_a_ts: "accepted host_a doc_a_ts"
  by (simp add: accepted_def current_host_a doc_a_def doc_a_ts_def)

lemma docs_host_a:
  "docs host_a = [''/w/a.vue'' \<mapsto> doc_a\<lparr>languageId := ''javascript''\<rparr>]"
  by (simp add: host_a_def sample_init_def docs_update accepted_init sample_path_a docs_init
      script_init_a [unfolded sample_init_def])

lemma docs_host_b:
  "docs host_b = [''/w/b.vue'' \<mapsto> doc_b\<lparr>languageId := ''javascript''\<rparr>]"
  by (simp add: host_b_def sample_init_def docs_update accepted_init sample_path_b docs_init
      script_init_b [unfolded sample_init_def])

lemma vue_a: "endsWith ''/w/a.vue'' ''.vue''"
  by (simp add: endsWith_def)

lemma files_host_a: "files host_a = [''/w/a.vue'']"
  by (simp add: host_a_def sample_init_def files_update files_addFile sample_path_a docs_init
      files_init vue_a)

lemma versions_host_a: "versions host_a = [''/w/a.vue'' \<mapsto> 1]"
  by (simp add: host_a_def sample_init_def versions_update accepted_init sample_path_a
      versionOf_init versions_init)

lemma cleanups_host_a: "cleanups host_a = 0"
  by (simp add: host_a_def sample_init_def cleanups_update accepted_init docs_init
      languageChange_def init_host_def)

lemma allowJs_host_a: "allowJs host_a"
  by (simp add: host_a_def sample_init_def allowJs_update accepted_init docs_init
      languageChange_def init_host_def)

lemma jsDocuments_host_a:
  "jsDocuments host_a = [''file:///w/a.vue'' \<mapsto> (1, ''vue'', doc_a\<lparr>languageId := ''javascript''\<rparr>)]"
  by (simp add: host_a_def sample_init_def jsDocuments_update accepted_init jsDocuments_init
      sample_get_miss sample_script_a)
    (simp add: doc_a_def)

lemma script_host_a_ts:
  "scriptDocument sample_env host_a doc_a_ts = doc_a_ts\<lparr>languageId := ''typescript''\<rparr>"
proof -
  have "jsDocuments host_a (uri doc_a_ts)
      = Some (1, ''vue'', doc_a\<lparr>languageId := ''javascript''\<rparr>)"
    by (simp add: jsDocuments_host_a doc_a_ts_def)
  moreover have "(1::int) \<noteq> version doc_a_ts"
    by (simp add: doc_a_ts_def)
  ultimately show ?thesis
    by (simp add: scriptDocument_def sample_get_stale sample_script_a_ts)
qed

subsection \<open>Versions\<close>

text \<open>
  C1 (as amended). An update is accepted when there is no current document, or when
  the submitted document's uri or editor version differs from the current document's.
  Every accepted update raises the version counter of the document's path by exactly
  one, whatever its text; an update that repeats the current document's uri and
  version is not accepted and leaves the counter as it is.
\<close>

theorem update_version_step:
  "versionOf (updateCurrentTextDocument E s doc) (getFileFsPath E (uri doc)) =
     (if accepted s doc then versionOf s (getFileFsPath E (uri doc)) + 1
      else versionOf s (getFileFsPath E (uri doc)))"
proof (cases "accepted s doc")
  case True
  then show ?thesis by (simp add: versionOf_update)
next
  case False
  then show ?thesis by (simp add: versionOf_update)
qed

theorem update_version_step_witness:
  "versionOf (updateCurrentTextDocument sample_env (sample_init [] True) doc_a) ''/w/a.vue'' = 1
   \<and> versionOf (updateCurrentTextDocument sample_env host_a doc_a) ''/w/a.vue'' = versionOf host_a ''/w/a.vue''
   \<and> versionOf (updateCurrentTextDocument sample_env host_a doc_a_ts) ''/w/a.vue'' = versionOf host_a ''/w/a.vue'' + 1"
  using update_version_step [of sample_env "sample_init [] True" doc_a]
    update_version_step [of sample_env host_a doc_a]
    update_version_step [of sample_env host_a doc_a_ts]
  by (simp add: sample_path_a sample_path_a_ts sample_init_def accepted_init
      not_accepted_host_a accepted_host_a_ts versionOf_init)

text \<open>
  The claim as written fails: the document that is current, submitted a second time
  with the same text, leaves the version at 1.
\<close>

theorem resubmit_counterexample:
  "currentTextDocument host_a = Some (scriptDocument sample_env (sample_init [] True) doc_a)
   \<and> versionOf host_a ''/w/a.vue'' = 1
   \<and> versionOf (updateCurrentTextDocument sample_env host_a doc_a) ''/w/a.vue'' = 1"
  by (simp add: versionOf_def versions_update not_accepted_host_a versions_host_a
      current_host_a script_init_a)

subsection \<open>Dialect changes\<close>

text \<open>
  C2 (as amended). When an accepted update submits a document whose path is tracked
  and whose script document, as the cache answers it, has another languageId than the
  tracked one, the host calls the service's cleanupSemanticCache once (the whole
  service's cache, not one file's), sets allowJs to whether the previous languageId
  was not typescript, and completes as any other update, with the new script document
  tracked and current. An update that repeats the current document's uri and version
  is ignored whatever dialect its text has: nothing is dropped, set or tracked. No
  update has a failing outcome.
\<close>

theorem accepted_dialect_change_drops_cache:
  "(accepted s doc
      \<and> docs s (getFileFsPath E (uri doc)) = Some lastDoc
      \<and> languageId (scriptDocument E s doc) \<noteq> languageId lastDoc
    \<longrightarrow> cleanups (updateCurrentTextDocument E s doc) = cleanups s + 1
      \<and> allowJs (updateCurrentTextDocument E s doc) = (languageId lastDoc \<noteq> ''typescript'')
      \<and> docs (updateCurrentTextDocument E s doc) (getFileFsPath E (uri doc))
          = Some (scriptDocument E s doc)
      \<and> currentTextDocument (updateCurrentTextDocument E s doc) = Some (scriptDocument E s doc)
      \<and> files (updateCurrentTextDocument E s doc) = files s)
   \<and> (\<not> accepted s doc
    \<longrightarrow> cleanups (updateCurrentTextDocument E s doc) = cleanups s
      \<and> allowJs (updateCurrentTextDocument E s doc) = allowJs s
      \<and> docs (updateCurrentTextDocument E s doc) = docs s
      \<and> jsDocuments (updateCurrentTextDocument E s doc) = jsDocuments s)"
proof (intro conjI impI)
  let ?p = "getFileFsPath E (uri doc)"
  let ?s1 = "addFile s ?p"
  assume h: "accepted s doc \<and> docs s ?p = Some lastDoc
      \<and> languageId (scriptDocument E s doc) \<noteq> languageId lastDoc"
  then have acc: "accepted s doc" and last: "docs s ?p = Some lastDoc"
    and differs: "languageId (scriptDocument E s doc) \<noteq> languageId lastDoc"
    by simp_all
  have change: "languageChange ?s1 (scriptDocument E s doc) (docs s ?p)
      = ?s1\<lparr>allowJs := (languageId lastDoc \<noteq> ''typescript''), cleanups := cleanups ?s1 + 1\<rparr>"
    using last differs by (simp add: languageChange_def)
  show "cleanups (updateCurrentTextDocument E s doc) = cleanups s + 1"
    using acc by (simp add: cleanups_update change)
  show "allowJs (updateCurrentTextDocument E s doc) = (languageId lastDoc \<noteq> ''typescript'')"
    using acc by (simp add: allowJs_update change)
  show "docs (updateCurrentTextDocument E s doc) ?p = Some (scriptDocument E s doc)"
    using acc by (simp add: docs_update)
  show "currentTextDocument (updateCurrentTextDocument E s doc) = Some (scriptDocument E s doc)"
    using acc by (simp add: current_update)
  show "files (updateCurrentTextDocument E s doc) = files s"
    using last by (simp add: files_update files_addFile)
next
  assume "\<not> accepted s doc"
  then show "cleanups (updateCurrentTextDocument E s doc) = cleanups s"
    and "allowJs (updateCurrentTextDocument E s doc) = allowJs s"
    and "docs (updateCurrentTextDocument E s doc) = docs s"
    and "jsDocuments (updateCurrentTextDocument E s doc) = jsDocuments s"
    by (simp_all add: cleanups_update allowJs_update docs_update jsDocuments_update)
qed

theorem accepted_dialect_change_drops_cache_witness:
  "accepted host_a doc_a_ts
   \<and> docs host_a ''/w/a.vue'' = Some (doc_a\<lparr>languageId := ''javascript''\<rparr>)
   \<and> languageId (scriptDocument sample_env host_a doc_a_ts) = ''typescript''
   \<and> cleanups host_a = 0
   \<and> cleanups (updateCurrentTextDocument sample_env host_a doc_a_ts) = 1
   \<and> allowJs (updateCurrentTextDocument sample_env host_a doc_a_ts)
   \<and> docs (updateCurrentTextDocument sample_env host_a doc_a_ts) ''/w/a.vue''
       = Some (doc_a_ts\<lparr>languageId := ''typescript''\<rparr>)
   \<and> \<not> accepted host_a doc_a
   \<and> cleanups (updateCurrentTextDocument sample_env host_a doc_a) = 0"
  using accepted_dialect_change_drops_cache
      [of host_a doc_a_ts sample_env "doc_a\<lparr>languageId := ''javascript''\<rparr>"]
    accepted_dialect_change_drops_cache
      [of host_a doc_a sample_env "doc_a\<lparr>languageId := ''javascript''\<rparr>"]
  by (simp add: accepted_host_a_ts not_accepted_host_a sample_path_a_ts docs_host_a
      script_host_a_ts cleanups_host_a)

text \<open>
  The claim as written fails: \<open>a\<close> is tracked with an untyped script block, is closed,
  and is opened again at version 1 with a typed one. The cache, asked now, answers
  with a typed script document; the update is ignored, the semantic cache is not
  dropped and \<open>a\<close> stays tracked as untyped.
\<close>

theorem reopened_dialect_counterexample:
  "docs host_a_closed ''/w/a.vue'' = Some (doc_a\<lparr>languageId := ''javascript''\<rparr>)
   \<and> languageId (scriptDocument sample_env host_a_closed doc_a_reopened) = ''typescript''
   \<and> cleanups (updateCurrentTextDocument sample_env host_a_closed doc_a_reopened)
       = cleanups host_a_closed
   \<and> allowJs (updateCurrentTextDocument sample_env host_a_closed doc_a_reopened)
       = allowJs host_a_closed
   \<and> docs (updateCurrentTextDocument sample_env host_a_closed doc_a_reopened) ''/w/a.vue''
       = Some (doc_a\<lparr>languageId := ''javascript''\<rparr>)"
proof -
  have tracked: "docs host_a_closed = docs host_a"
    and current: "currentTextDocument host_a_closed = currentTextDocument host_a"
    by (simp_all add: host_a_closed_def onDocumentRemoved_def)
  have ignored: "\<not> accepted host_a_closed doc_a_reopened"
    by (simp add: accepted_def current current_host_a doc_a_def doc_a_reopened_def)
  have emptied: "jsDocuments host_a_closed (uri doc_a_reopened) = None"
    by (simp add: host_a_closed_def onDocumentRemoved_def sample_env_def doc_a_def
        doc_a_reopened_def)
  have typed: "languageId (scriptDocument sample_env host_a_closed doc_a_reopened) = ''typescript''"
    using emptied
    by (simp add: scriptDocument_def sample_get_miss sample_scriptOf_def)
      (simp add: doc_a_reopened_def)
  show ?thesis
    using ignored typed
    by (simp add: tracked docs_host_a cleanups_update allowJs_update docs_update)
qed

text \<open>No other update touches the semantic cache or the compiler setting.\<close>

lemma no_dialect_change_keeps_cache:
  assumes "\<not> accepted s doc \<or> docs s (getFileFsPath E (uri doc)) = None
      \<or> (\<exists>lastDoc. docs s (getFileFsPath E (uri doc)) = Some lastDoc
            \<and> languageId (scriptDocument E s doc) = languageId lastDoc)"
  shows "cleanups (updateCurrentTextDocument E s doc) = cleanups s
    \<and> allowJs (updateCurrentTextDocument E s doc) = allowJs s"
  using assms
  by (auto simp: cleanups_update allowJs_update languageChange_def)

subsection \<open>Resolution of imports\<close>

text \<open>The third branch of the resolver, for a relative import of a mixed-content file.\<close>

lemma resolveModuleName_relative_vue:
  assumes "name \<noteq> bridge_moduleName E" and "\<not> path_isAbsolute E name" and "isVue E name"
  shows "resolveModuleName E d s containingFile name =
     (case d (candidatePath E containingFile name) of
        None \<Rightarrow> (Inr None, s)
      | Some onDisk \<Rightarrow>
         (case docs s (candidatePath E containingFile name) of
            Some doc \<Rightarrow>
              (Inr (Some \<lparr>resolvedFileName = candidatePath E containingFile name,
                          extension = extensionOf doc\<rparr>), s)
          | None \<Rightarrow>
             (case onDisk of
                Unreadable \<Rightarrow> (Inl IOError, s)
              | Readable content \<Rightarrow>
                 (Inr (Some \<lparr>resolvedFileName = candidatePath E containingFile name,
                             extension = extensionOf (scriptDocument E s
                               (TextDocument_create
                                  (uri_file_toString E
                                     (path_join E (path_dirname E containingFile) name))
                                  ''vue'' 0 content))\<rparr>),
                  s\<lparr>jsDocuments := snd (jsDocuments_get E (jsDocuments s)
                       (TextDocument_create
                          (uri_file_toString E (path_join E (path_dirname E containingFile) name))
                          ''vue'' 0 content))\<rparr>))))"
  using assms
  by (simp add: resolveModuleName_def candidatePath_def Let_def case_prod_beta
      scriptDocument_def split: option.splits file_entry.splits)

text \<open>Resolution writes to the cache only.\<close>

lemma resolveModuleName_frame:
  "docs (snd (resolveModuleName E d s containingFile name)) = docs s
   \<and> versions (snd (resolveModuleName E d s containingFile name)) = versions s
   \<and> files (snd (resolveModuleName E d s containingFile name)) = files s
   \<and> allowJs (snd (resolveModuleName E d s containingFile name)) = allowJs s
   \<and> cleanups (snd (resolveModuleName E d s containingFile name)) = cleanups s
   \<and> currentTextDocument (snd (resolveModuleName E d s containingFile name))
       = currentTextDocument s"
  by (simp add: resolveModuleName_def Let_def case_prod_beta
      split: option.splits file_entry.splits)

lemma resolveModuleNames_frame:
  "docs (snd (resolveModuleNames E d s names containingFile)) = docs s
   \<and> versions (snd (resolveModuleNames E d s names containingFile)) = versions s
   \<and> files (snd (resolveModuleNames E d s names containingFile)) = files s
   \<and> allowJs (snd (resolveModuleNames E d s names containingFile)) = allowJs s
   \<and> cleanups (snd (resolveModuleNames E d s names containingFile)) = cleanups s
   \<and> currentTextDocument (snd (resolveModuleNames E d s names containingFile))
       = currentTextDocument s"
proof (induction names arbitrary: s)
  case Nil
  show ?case by simp
next
  case (Cons name names)
  obtain r s1 where one: "resolveModuleName E d s containingFile name = (r, s1)"
    by (cases "resolveModuleName E d s containingFile name")
  have frame1: "docs s1 = docs s \<and> versions s1 = versions s \<and> files s1 = files s
      \<and> allowJs s1 = allowJs s \<and> cleanups s1 = cleanups s
      \<and> currentTextDocument s1 = currentTextDocument s"
    using resolveModuleName_frame [of E d s containingFile name] one by simp
  show ?case
  proof (cases r)
    case (Inl e)
    with one frame1 show ?thesis by simp
  next
    case (Inr found)
    obtain rs s2 where rest: "resolveModuleNames E d s1 names containingFile = (rs, s2)"
      by (cases "resolveModuleNames E d s1 names containingFile")
    have "docs s2 = docs s1 \<and> versions s2 = versions s1 \<and> files s2 = files s1
        \<and> allowJs s2 = allowJs s1 \<and> cleanups s2 = cleanups s1
        \<and> currentTextDocument s2 = currentTextDocument s1"
      using Cons.IH [of s1] rest by simp
    with frame1 one Inr rest show ?thesis
      by (cases rs) simp_all
  qed
qed

text \<open>
  What a list call returns holds, at each position, what resolving that import alone
  returns in a state with the same tracked documents and compiler setting.
\<close>

lemma resolveModuleNames_nth:
  assumes "fst (resolveModuleNames E d s names containingFile) = Inr rs"
  shows "length rs = length names
    \<and> (\<forall>i < length names. \<exists>si. docs si = docs s \<and> allowJs si = allowJs s
          \<and> fst (resolveModuleName E d si containingFile (names ! i)) = Inr (rs ! i))"
  using assms
proof (induction names arbitrary: s rs)
  case Nil
  then show ?case by simp
next
  case (Cons name names)
  obtain r s1 where one: "resolveModuleName E d s containingFile name = (r, s1)"
    by (cases "resolveModuleName E d s containingFile name")
  obtain rest s2 where more: "resolveModuleNames E d s1 names containingFile = (rest, s2)"
    by (cases "resolveModuleNames E d s1 names containingFile")
  from Cons.prems one more obtain found tl_rs
    where r: "r = Inr found" and rest: "rest = Inr tl_rs" and rs: "rs = found # tl_rs"
    by (cases r; cases rest) auto
  have frame1: "docs s1 = docs s \<and> allowJs s1 = allowJs s"
    using resolveModuleName_frame [of E d s containingFile name] one by simp
  have ih: "length tl_rs = length names
      \<and> (\<forall>i < length names. \<exists>si. docs si = docs s1 \<and> allowJs si = allowJs s1
            \<and> fst (resolveModuleName E d si containingFile (names ! i)) = Inr (tl_rs ! i))"
    using Cons.IH [of s1 tl_rs] more rest by simp
  show ?case
  proof (intro conjI allI impI)
    show "length rs = length (name # names)"
      using ih rs by simp
  next
    fix i
    assume i: "i < length (name # names)"
    show "\<exists>si. docs si = docs s \<and> allowJs si = allowJs s
        \<and> fst (resolveModuleName E d si containingFile ((name # names) ! i)) = Inr (rs ! i)"
    proof (cases i)
      case 0
      with one r rs show ?thesis by auto
    next
      case (Suc j)
      with i have "j < length names" by simp
      with ih obtain si where "docs si = docs s1" "allowJs si = allowJs s1"
        "fst (resolveModuleName E d si containingFile (names ! j)) = Inr (tl_rs ! j)"
        by blast
      with frame1 Suc rs show ?thesis by auto
    qed
  qed
qed

text \<open>Whether resolving an import raises depends on the tracked documents and the disk.\<close>

lemma resolveModuleName_raises:
  "(fst (resolveModuleName E d s containingFile name) = Inl e) =
     (e = IOError \<and> name \<noteq> bridge_moduleName E \<and> \<not> path_isAbsolute E name \<and> isVue E name
      \<and> d (candidatePath E containingFile name) = Some Unreadable
      \<and> docs s (candidatePath E containingFile name) = None)"
  by (auto simp: resolveModuleName_def candidatePath_def Let_def case_prod_beta
      split: option.splits file_entry.splits)

lemma resolveModuleNames_returns:
  assumes "\<forall>name \<in> set names. \<forall>e. fst (resolveModuleName E d s containingFile name) \<noteq> Inl e"
  shows "\<exists>rs. fst (resolveModuleNames E d s names containingFile) = Inr rs"
  using assms
proof (induction names arbitrary: s)
  case Nil
  show ?case by simp
next
  case (Cons name names)
  obtain r s1 where one: "resolveModuleName E d s containingFile name = (r, s1)"
    by (cases "resolveModuleName E d s containingFile name")
  from Cons.prems one obtain found where r: "r = Inr found"
    by (cases r) auto
  have same: "docs s1 = docs s"
    using resolveModuleName_frame [of E d s containingFile name] one by simp
  have "\<forall>n \<in> set names. \<forall>e. fst (resolveModuleName E d s1 containingFile n) \<noteq> Inl e"
    using Cons.prems same by (simp add: resolveModuleName_raises)
  then obtain rs where "fst (resolveModuleNames E d s1 names containingFile) = Inr rs"
    using Cons.IH by blast
  with one r show ?case
    by (cases "resolveModuleNames E d s1 names containingFile") auto
qed

lemma sample_candidate_b: "candidatePath sample_env ''/w/a.vue'' ''./b.vue'' = ''/w/b.vue''"
  by (simp add: candidatePath_def sample_env_def)

lemma sample_relative_vue_b:
  "''./b.vue'' \<noteq> bridge_moduleName sample_env \<and> \<not> path_isAbsolute sample_env ''./b.vue''
   \<and> isVue sample_env ''./b.vue''"
  by (simp add: sample_env_def endsWith_def)

lemma sample_created_b:
  "TextDocument_create
     (uri_file_toString sample_env
        (path_join sample_env (path_dirname sample_env ''/w/a.vue'') ''./b.vue''))
     ''vue'' 0 content
   = \<lparr>uri = ''file:///w/b.vue'', languageId = ''vue'', version = 0, getText = content\<rparr>"
  by (simp add: TextDocument_create_def sample_env_def)

lemma sample_resolve_b:
  "docs s ''/w/b.vue'' = None \<Longrightarrow> d ''/w/b.vue'' = Some (Readable content) \<Longrightarrow>
   fst (resolveModuleName sample_env d s ''/w/a.vue'' ''./b.vue'')
     = Inr (Some \<lparr>resolvedFileName = ''/w/b.vue'',
                  extension = extensionOf (scriptDocument sample_env s
                    \<lparr>uri = ''file:///w/b.vue'', languageId = ''vue'', version = 0,
                     getText = content\<rparr>)\<rparr>)"
  using sample_relative_vue_b
  by (simp add: resolveModuleName_relative_vue sample_candidate_b sample_created_b)

lemma jsDocuments_host_a_b: "jsDocuments host_a ''file:///w/b.vue'' = None"
  by (simp add: jsDocuments_host_a)

lemma sample_resolve_b_first:
  "fst (resolveModuleName sample_env disk_b host_a ''/w/a.vue'' ''./b.vue'')
     = Inr (Some \<lparr>resolvedFileName = ''/w/b.vue'', extension = Ts\<rparr>)"
proof -
  have "scriptDocument sample_env host_a
      \<lparr>uri = ''file:///w/b.vue'', languageId = ''vue'', version = 0,
       getText = ''ts export default {}''\<rparr>
    = sample_scriptOf \<lparr>uri = ''file:///w/b.vue'', languageId = ''vue'', version = 0,
       getText = ''ts export default {}''\<rparr>"
    using jsDocuments_host_a_b by (simp add: scriptDocument_def sample_get_miss)
  then show ?thesis
    by (simp add: sample_resolve_b docs_host_a disk_b_def sample_scriptOf_def extensionOf_def)
qed

text \<open>The first resolution of \<open>./b.vue\<close> leaves its typed script document in the cache.\<close>

lemma host_a_resolved_frame:
  "docs host_a_resolved = docs host_a \<and> versions host_a_resolved = versions host_a
   \<and> files host_a_resolved = files host_a \<and> allowJs host_a_resolved = allowJs host_a"
  using resolveModuleName_frame [of sample_env disk_b host_a "''/w/a.vue''" "''./b.vue''"]
  by (simp add: host_a_resolved_def)

lemma jsDocuments_host_a_resolved:
  "jsDocuments host_a_resolved ''file:///w/b.vue''
     = Some (0, ''vue'', \<lparr>uri = ''file:///w/b.vue'', languageId = ''typescript'', version = 0,
                          getText = ''ts export default {}''\<rparr>)"
  using sample_relative_vue_b jsDocuments_host_a_b
  by (simp add: host_a_resolved_def resolveModuleName_relative_vue sample_candidate_b
      sample_created_b disk_b_def docs_host_a sample_get_miss sample_scriptOf_def)

lemma sample_resolve_b_stale:
  "fst (resolveModuleName sample_env disk_b_js host_a_resolved ''/w/a.vue'' ''./b.vue'')
     = Inr (Some \<lparr>resolvedFileName = ''/w/b.vue'', extension = Ts\<rparr>)"
proof -
  have "scriptDocument sample_env host_a_resolved
      \<lparr>uri = ''file:///w/b.vue'', languageId = ''vue'', version = 0,
       getText = ''js export default {}''\<rparr>
    = \<lparr>uri = ''file:///w/b.vue'', languageId = ''typescript'', version = 0,
       getText = ''ts export default {}''\<rparr>"
    using jsDocuments_host_a_resolved by (simp add: scriptDocument_def sample_get_hit)
  then show ?thesis
    by (simp add: sample_resolve_b host_a_resolved_frame docs_host_a disk_b_js_def
        extensionOf_def)
qed

lemma sample_resolve_b_fresh:
  "fst (resolveModuleName sample_env disk_b_js host_a ''/w/a.vue'' ''./b.vue'')
     = Inr (Some \<lparr>resolvedFileName = ''/w/b.vue'', extension = Js\<rparr>)"
proof -
  have "scriptDocument sample_env host_a
      \<lparr>uri = ''file:///w/b.vue'', languageId = ''vue'', version = 0,
       getText = ''js export default {}''\<rparr>
    = sample_scriptOf \<lparr>uri = ''file:///w/b.vue'', languageId = ''vue'', version = 0,
       getText = ''js export default {}''\<rparr>"
    using jsDocuments_host_a_b by (simp add: scriptDocument_def sample_get_miss)
  then show ?thesis
    by (simp add: sample_resolve_b docs_host_a disk_b_js_def sample_scriptOf_def
        extensionOf_def)
qed

text \<open>The invariant that links the tracked documents to the root file list.\<close>

lemma tracked_vue_update:
  assumes inv: "\<forall>p. docs s p \<noteq> None \<longrightarrow> endsWith p ''.vue'' \<longrightarrow> p \<in> set (files s)"
  shows "\<forall>p. docs (updateCurrentTextDocument E s doc) p \<noteq> None \<longrightarrow> endsWith p ''.vue''
           \<longrightarrow> p \<in> set (files (updateCurrentTextDocument E s doc))"
proof (intro allI impI)
  fix p
  assume tracked: "docs (updateCurrentTextDocument E s doc) p \<noteq> None"
    and vue: "endsWith p ''.vue''"
  let ?q = "getFileFsPath E (uri doc)"
  have grows: "set (files s) \<subseteq> set (files (updateCurrentTextDocument E s doc))"
    by (auto simp: files_update files_addFile)
  show "p \<in> set (files (updateCurrentTextDocument E s doc))"
  proof (cases "docs s p = None")
    case False
    with inv vue have "p \<in> set (files s)" by blast
    with grows show ?thesis by blast
  next
    case True
    with tracked have "p = ?q"
      by (auto simp: docs_update split: if_splits)
    with True vue show ?thesis
      by (simp add: files_update files_addFile)
  qed
qed

lemma tracked_vue_run:
  "\<forall>p. docs s p \<noteq> None \<longrightarrow> endsWith p ''.vue'' \<longrightarrow> p \<in> set (files s) \<Longrightarrow>
   \<forall>p. docs (run_updates E s ds) p \<noteq> None \<longrightarrow> endsWith p ''.vue''
         \<longrightarrow> p \<in> set (files (run_updates E s ds))"
proof (induction ds arbitrary: s)
  case Nil
  then show ?case by simp
next
  case (Cons d ds)
  from Cons.prems have "\<forall>p. docs (updateCurrentTextDocument E s d) p \<noteq> None
      \<longrightarrow> endsWith p ''.vue'' \<longrightarrow> p \<in> set (files (updateCurrentTextDocument E s d))"
    by (rule tracked_vue_update)
  then show ?case
    using Cons.IH [of "updateCurrentTextDocument E s d"] by simp
qed

text \<open>
  C3 (as amended). Resolving the import of \<open>b\<close> from \<open>a\<close> returns \<open>b\<close>'s path and
  dialect and writes nothing to the tracked documents, the versions or the root file
  list: of the host's state the callbacks change the document cache only. A path
  enters the tracked documents and the root file list only through an update of the
  document itself. What holds of the root file set is the invariant: after any
  sequence of updates from the initial host, every tracked path that ends in
  \<open>.vue\<close> is among the root file names.
\<close>

theorem tracked_vue_in_root:
  assumes "docs (run_updates E (init_host fileNames aj cache) ds) p = Some doc"
    and "endsWith p ''.vue''"
  shows "p \<in> set (getScriptFileNames (run_updates E (init_host fileNames aj cache) ds))
    \<and> docs (snd (resolveModuleNames E d (run_updates E (init_host fileNames aj cache) ds)
               moduleNames containingFile))
        = docs (run_updates E (init_host fileNames aj cache) ds)
    \<and> versions (snd (resolveModuleNames E d (run_updates E (init_host fileNames aj cache) ds)
               moduleNames containingFile))
        = versions (run_updates E (init_host fileNames aj cache) ds)
    \<and> getScriptFileNames (snd (resolveModuleNames E d
               (run_updates E (init_host fileNames aj cache) ds) moduleNames containingFile))
        = getScriptFileNames (run_updates E (init_host fileNames aj cache) ds)"
proof -
  let ?s = "run_updates E (init_host fileNames aj cache) ds"
  have "\<forall>p. docs (init_host fileNames aj cache) p \<noteq> None \<longrightarrow> endsWith p ''.vue''
        \<longrightarrow> p \<in> set (files (init_host fileNames aj cache))"
    by (simp add: docs_init)
  then have "\<forall>p. docs ?s p \<noteq> None \<longrightarrow> endsWith p ''.vue'' \<longrightarrow> p \<in> set (files ?s)"
    by (rule tracked_vue_run)
  with assms have "p \<in> set (getScriptFileNames ?s)"
    by (simp add: getScriptFileNames_def)
  then show ?thesis
    using resolveModuleNames_frame [of E d ?s moduleNames containingFile]
    by (simp add: getScriptFileNames_def)
qed

theorem tracked_vue_in_root_witness:
  "docs (run_updates sample_env (init_host [] True Map.empty) [doc_a]) ''/w/a.vue''
     = Some (doc_a\<lparr>languageId := ''javascript''\<rparr>)
   \<and> endsWith ''/w/a.vue'' ''.vue''
   \<and> ''/w/a.vue'' \<in> set (getScriptFileNames
         (run_updates sample_env (init_host [] True Map.empty) [doc_a]))
   \<and> docs (snd (resolveModuleNames sample_env disk_b
         (run_updates sample_env (init_host [] True Map.empty) [doc_a]) [''./b.vue''] ''/w/a.vue''))
       = [''/w/a.vue'' \<mapsto> doc_a\<lparr>languageId := ''javascript''\<rparr>]"
proof -
  have run: "run_updates sample_env (init_host [] True Map.empty) [doc_a] = host_a"
    by (simp add: host_a_def sample_init_def)
  have tracked: "docs (run_updates sample_env (init_host [] True Map.empty) [doc_a]) ''/w/a.vue''
      = Some (doc_a\<lparr>languageId := ''javascript''\<rparr>)"
    unfolding run by (simp add: docs_host_a)
  from tracked_vue_in_root [OF tracked vue_a, of disk_b "[''./b.vue'']" "''/w/a.vue''"]
    tracked vue_a
  show ?thesis
    by (simp add: run docs_host_a del: run_updates.simps resolveModuleNames.simps)
qed

text \<open>
  The claim as written fails: after the update of \<open>a\<close> and the service's request to
  resolve \<open>./b.vue\<close> from \<open>a\<close>, which succeeds, \<open>b\<close> is neither tracked nor versioned
  nor among the root file names.
\<close>

theorem import_not_tracked_counterexample:
  "snd (snd (doValidation sample_feature_env sample_env sample_service disk_b
               (sample_init [] True) doc_a)) = host_a
   \<and> fst (resolveModuleNames sample_env disk_b host_a [''./b.vue''] ''/w/a.vue'')
       = Inr [Some \<lparr>resolvedFileName = ''/w/b.vue'', extension = Ts\<rparr>]
   \<and> docs (snd (resolveModuleNames sample_env disk_b host_a [''./b.vue''] ''/w/a.vue''))
        ''/w/b.vue'' = None
   \<and> versions (snd (resolveModuleNames sample_env disk_b host_a [''./b.vue''] ''/w/a.vue''))
        ''/w/b.vue'' = None
   \<and> ''/w/b.vue'' \<notin> set (getScriptFileNames
        (snd (resolveModuleNames sample_env disk_b host_a [''./b.vue''] ''/w/a.vue'')))"
proof -
  have "snd (snd (doValidation sample_feature_env sample_env sample_service disk_b
               (sample_init [] True) doc_a)) = host_a"
    by (simp add: doValidation_def host_a_def Let_def)
  moreover have "fst (resolveModuleNames sample_env disk_b host_a [''./b.vue''] ''/w/a.vue'')
       = Inr [Some \<lparr>resolvedFileName = ''/w/b.vue'', extension = Ts\<rparr>]"
    using sample_resolve_b_first
    by (cases "resolveModuleName sample_env disk_b host_a ''/w/a.vue'' ''./b.vue''") simp
  moreover have "docs (snd (resolveModuleNames sample_env disk_b host_a [''./b.vue''] ''/w/a.vue''))
        ''/w/b.vue'' = None"
    using resolveModuleNames_frame [of sample_env disk_b host_a "[''./b.vue'']" "''/w/a.vue''"]
    by (simp add: docs_host_a del: resolveModuleNames.simps)
  moreover have "versions (snd (resolveModuleNames sample_env disk_b host_a [''./b.vue''] ''/w/a.vue''))
        ''/w/b.vue'' = None"
    using resolveModuleNames_frame [of sample_env disk_b host_a "[''./b.vue'']" "''/w/a.vue''"]
    by (simp add: versions_host_a del: resolveModuleNames.simps)
  moreover have "''/w/b.vue'' \<notin> set (getScriptFileNames
        (snd (resolveModuleNames sample_env disk_b host_a [''./b.vue''] ''/w/a.vue'')))"
    using resolveModuleNames_frame [of sample_env disk_b host_a "[''./b.vue'']" "''/w/a.vue''"]
    by (simp add: getScriptFileNames_def files_host_a del: resolveModuleNames.simps)
  ultimately show ?thesis by blast
qed

text \<open>
  C4 (as amended). A relative import that names a mixed-content file resolves to the
  candidate path, the import joined to the containing file's directory, and is
  unresolved exactly when \<open>ts.sys.fileExists\<close> finds no file at that path on disk.
  The tracked documents are not consulted for existence.
\<close>

theorem relative_vue_unresolved_iff:
  assumes "name \<noteq> bridge_moduleName E" and "\<not> path_isAbsolute E name" and "isVue E name"
  shows "(fst (resolveModuleName E d s containingFile name) = Inr None)
           = (\<not> sys_fileExists d (candidatePath E containingFile name))
    \<and> (\<forall>r. fst (resolveModuleName E d s containingFile name) = Inr (Some r)
           \<longrightarrow> resolvedFileName r = candidatePath E containingFile name)"
proof (cases "d (candidatePath E containingFile name)")
  case None
  then show ?thesis
    by (simp add: resolveModuleName_relative_vue [OF assms] sys_fileExists_def)
next
  case (Some onDisk)
  then show ?thesis
    by (auto simp: resolveModuleName_relative_vue [OF assms] sys_fileExists_def
        split: option.splits file_entry.splits)
qed

theorem relative_vue_unresolved_iff_witness:
  "fst (resolveModuleName sample_env disk_b host_a ''/w/a.vue'' ''./b.vue'') \<noteq> Inr None
   \<and> sys_fileExists disk_b (candidatePath sample_env ''/w/a.vue'' ''./b.vue'')
   \<and> fst (resolveModuleName sample_env Map.empty host_a ''/w/a.vue'' ''./b.vue'') = Inr None"
  using sample_relative_vue_b
    relative_vue_unresolved_iff [of "''./b.vue''" sample_env disk_b host_a "''/w/a.vue''"]
    relative_vue_unresolved_iff [of "''./b.vue''" sample_env Map.empty host_a "''/w/a.vue''"]
  by (simp add: sample_candidate_b sys_fileExists_def disk_b_def)

text \<open>
  The claim as written fails: \<open>b\<close> is open in memory (tracked after its update) and
  absent from disk, and the import of \<open>./b.vue\<close> is unresolved.
\<close>

theorem memory_only_unresolved_counterexample:
  "docs host_b (candidatePath sample_env ''/w/a.vue'' ''./b.vue'')
      = Some (doc_b\<lparr>languageId := ''javascript''\<rparr>)
   \<and> \<not> path_isAbsolute sample_env ''./b.vue''
   \<and> isVue sample_env ''./b.vue''
   \<and> fst (resolveModuleName sample_env Map.empty host_b ''/w/a.vue'' ''./b.vue'') = Inr None"
  using sample_relative_vue_b
  by (simp add: resolveModuleName_relative_vue sample_candidate_b docs_host_b)

text \<open>
  C5 (as amended). For a relative import of a mixed-content file that resolves: when
  the path is tracked, the extension returned is the tracked document's dialect,
  whatever is on disk; when the path is not tracked and the file on disk can be read,
  the import resolves, and the extension returned is the dialect of the script document
  with which the document cache answers for the text on disk, submitted at version 0
  under the languageId \<open>vue\<close>.
\<close>

theorem relative_vue_dialect:
  assumes "name \<noteq> bridge_moduleName E" and "\<not> path_isAbsolute E name" and "isVue E name"
  shows "(\<forall>doc. fst (resolveModuleName E d s containingFile name) \<noteq> Inr None
              \<and> docs s (candidatePath E containingFile name) = Some doc
           \<longrightarrow> resolveModuleName E d s containingFile name
                 = (Inr (Some \<lparr>resolvedFileName = candidatePath E containingFile name,
                               extension = extensionOf doc\<rparr>), s))
    \<and> (\<forall>content. d (candidatePath E containingFile name) = Some (Readable content)
              \<and> docs s (candidatePath E containingFile name) = None
           \<longrightarrow> fst (resolveModuleName E d s containingFile name)
                 = Inr (Some \<lparr>resolvedFileName = candidatePath E containingFile name,
                              extension = extensionOf (scriptDocument E s
                                (TextDocument_create
                                   (uri_file_toString E
                                      (path_join E (path_dirname E containingFile) name))
                                   ''vue'' 0 content))\<rparr>))"
proof (intro conjI allI impI)
  fix doc
  assume "fst (resolveModuleName E d s containingFile name) \<noteq> Inr None
      \<and> docs s (candidatePath E containingFile name) = Some doc"
  then show "resolveModuleName E d s containingFile name
      = (Inr (Some \<lparr>resolvedFileName = candidatePath E containingFile name,
                    extension = extensionOf doc\<rparr>), s)"
    by (cases "d (candidatePath E containingFile name)")
      (simp_all add: resolveModuleName_relative_vue [OF assms])
next
  fix content
  assume "d (candidatePath E containingFile name) = Some (Readable content)
      \<and> docs s (candidatePath E containingFile name) = None"
  then show "fst (resolveModuleName E d s containingFile name)
      = Inr (Some \<lparr>resolvedFileName = candidatePath E containingFile name,
                   extension = extensionOf (scriptDocument E s
                     (TextDocument_create
                        (uri_file_toString E (path_join E (path_dirname E containingFile) name))
                        ''vue'' 0 content))\<rparr>)"
    by (simp add: resolveModuleName_relative_vue [OF assms])
qed

theorem relative_vue_dialect_witness:
  "docs host_b ''/w/b.vue'' = Some (doc_b\<lparr>languageId := ''javascript''\<rparr>)
   \<and> disk_b ''/w/b.vue'' = Some (Readable ''ts export default {}'')
   \<and> fst (resolveModuleName sample_env disk_b host_b ''/w/a.vue'' ''./b.vue'')
       = Inr (Some \<lparr>resolvedFileName = ''/w/b.vue'', extension = Js\<rparr>)
   \<and> docs host_a ''/w/b.vue'' = None
   \<and> fst (resolveModuleName sample_env disk_b host_a ''/w/a.vue'' ''./b.vue'')
       = Inr (Some \<lparr>resolvedFileName = ''/w/b.vue'', extension = Ts\<rparr>)"
proof -
  have names: "''./b.vue'' \<noteq> bridge_moduleName sample_env"
    "\<not> path_isAbsolute sample_env ''./b.vue''" "isVue sample_env ''./b.vue''"
    using sample_relative_vue_b by simp_all
  have tracked: "docs host_b ''/w/b.vue'' = Some (doc_b\<lparr>languageId := ''javascript''\<rparr>)"
    by (simp add: docs_host_b)
  have on_disk: "disk_b ''/w/b.vue'' = Some (Readable ''ts export default {}'')"
    by (simp add: disk_b_def)
  have untracked: "docs host_a ''/w/b.vue'' = None"
    by (simp add: docs_host_a)
  have resolves: "fst (resolveModuleName sample_env disk_b host_b ''/w/a.vue'' ''./b.vue'')
      \<noteq> Inr None"
    using names tracked on_disk
    by (simp add: resolveModuleName_relative_vue sample_candidate_b)
  have js: "extensionOf (doc_b\<lparr>languageId := ''javascript''\<rparr>) = Js"
    by (simp add: extensionOf_def)
  have "scriptDocument sample_env host_a
      \<lparr>uri = ''file:///w/b.vue'', languageId = ''vue'', version = 0,
       getText = ''ts export default {}''\<rparr>
    = sample_scriptOf \<lparr>uri = ''file:///w/b.vue'', languageId = ''vue'', version = 0,
       getText = ''ts export default {}''\<rparr>"
    using jsDocuments_host_a_b by (simp add: scriptDocument_def sample_get_miss)
  then have ts: "extensionOf (scriptDocument sample_env host_a
      (TextDocument_create
         (uri_file_toString sample_env
            (path_join sample_env (path_dirname sample_env ''/w/a.vue'') ''./b.vue''))
         ''vue'' 0 ''ts export default {}'')) = Ts"
    by (simp add: sample_created_b extensionOf_def sample_scriptOf_def)
  show ?thesis
    using relative_vue_dialect [OF names, of disk_b host_b "''/w/a.vue''"]
      relative_vue_dialect [OF names, of disk_b host_a "''/w/a.vue''"]
      tracked on_disk untracked resolves js ts
    by (simp add: sample_candidate_b)
qed

text \<open>
  The claim as written fails twice. A file that exists on disk, was never opened and
  cannot be read does not resolve: the read raises. And a file that was never opened,
  resolved once while its script block was typed and then rewritten on disk with an
  untyped one, still resolves as typed: the cache is asked at version 0 both times and
  answers with the script document it kept.
\<close>

theorem disk_dialect_counterexample:
  "sys_fileExists disk_b_unreadable ''/w/b.vue''
   \<and> docs host_a ''/w/b.vue'' = None
   \<and> fst (resolveModuleName sample_env disk_b_unreadable host_a ''/w/a.vue'' ''./b.vue'')
       = Inl IOError
   \<and> docs host_a_resolved ''/w/b.vue'' = None
   \<and> disk_b_js ''/w/b.vue'' = Some (Readable ''js export default {}'')
   \<and> extensionOf (sample_scriptOf
         \<lparr>uri = ''file:///w/b.vue'', languageId = ''vue'', version = 0,
          getText = ''js export default {}''\<rparr>) = Js
   \<and> fst (resolveModuleName sample_env disk_b_js host_a_resolved ''/w/a.vue'' ''./b.vue'')
       = Inr (Some \<lparr>resolvedFileName = ''/w/b.vue'', extension = Ts\<rparr>)"
proof -
  have "fst (resolveModuleName sample_env disk_b_unreadable host_a ''/w/a.vue'' ''./b.vue'')
      = Inl IOError"
    using sample_relative_vue_b
    by (simp add: resolveModuleName_relative_vue sample_candidate_b disk_b_unreadable_def
        docs_host_a)
  moreover have "extensionOf (sample_scriptOf
      \<lparr>uri = ''file:///w/b.vue'', languageId = ''vue'', version = 0,
       getText = ''js export default {}''\<rparr>) = Js"
    by (simp add: extensionOf_def sample_scriptOf_def)
  ultimately show ?thesis
    using sample_resolve_b_stale
    by (simp add: sys_fileExists_def disk_b_unreadable_def disk_b_js_def docs_host_a
        host_a_resolved_frame)
qed

text \<open>
  C6. Resolving the bridge module's name returns the bridge's fixed file name with the
  typed extension, from every containing file and whatever the host's state and the
  disk hold, and changes nothing. In a list of imports the answer stands at the
  position of the bridge's name whenever the call returns, and the call returns unless
  the resolution of another import of the list raises.
\<close>

theorem bridge_resolves:
  assumes "i < length moduleNames" and "moduleNames ! i = bridge_moduleName E"
  shows "resolveModuleName E d s containingFile (moduleNames ! i)
           = (Inr (Some \<lparr>resolvedFileName = bridge_fileName E, extension = Ts\<rparr>), s)
    \<and> (\<forall>rs. fst (resolveModuleNames E d s moduleNames containingFile) = Inr rs
          \<longrightarrow> rs ! i = Some \<lparr>resolvedFileName = bridge_fileName E, extension = Ts\<rparr>)
    \<and> ((\<forall>name \<in> set moduleNames.
            \<forall>e. fst (resolveModuleName E d s containingFile name) \<noteq> Inl e)
          \<longrightarrow> (\<exists>rs. fst (resolveModuleNames E d s moduleNames containingFile) = Inr rs))"
proof (intro conjI allI impI)
  show "resolveModuleName E d s containingFile (moduleNames ! i)
      = (Inr (Some \<lparr>resolvedFileName = bridge_fileName E, extension = Ts\<rparr>), s)"
    using assms(2) by (simp add: resolveModuleName_def)
next
  fix rs
  assume "fst (resolveModuleNames E d s moduleNames containingFile) = Inr rs"
  then obtain si where
    "fst (resolveModuleName E d si containingFile (moduleNames ! i)) = Inr (rs ! i)"
    using resolveModuleNames_nth assms(1) by blast
  then show "rs ! i = Some \<lparr>resolvedFileName = bridge_fileName E, extension = Ts\<rparr>"
    using assms(2) by (simp add: resolveModuleName_def)
next
  assume "\<forall>name \<in> set moduleNames.
      \<forall>e. fst (resolveModuleName E d s containingFile name) \<noteq> Inl e"
  then show "\<exists>rs. fst (resolveModuleNames E d s moduleNames containingFile) = Inr rs"
    by (rule resolveModuleNames_returns)
qed

theorem bridge_resolves_witness:
  "fst (resolveModuleNames sample_env disk_b host_a [''./b.vue'', ''vue-editor-bridge''] ''/w/a.vue'')
     = Inr [Some \<lparr>resolvedFileName = ''/w/b.vue'', extension = Ts\<rparr>,
            Some \<lparr>resolvedFileName = ''vue-temp/vue-editor-bridge.ts'', extension = Ts\<rparr>]
   \<and> resolveModuleName sample_env Map.empty host_b ''/x/y.ts'' ''vue-editor-bridge''
     = (Inr (Some \<lparr>resolvedFileName = ''vue-temp/vue-editor-bridge.ts'', extension = Ts\<rparr>),
        host_b)"
proof -
  let ?names = "[''./b.vue'', ''vue-editor-bridge'']"
  have bridge: "bridge_moduleName sample_env = ''vue-editor-bridge''"
    "bridge_fileName sample_env = ''vue-temp/vue-editor-bridge.ts''"
    by (simp_all add: sample_env_def)
  have quiet: "\<forall>name \<in> set ?names.
      \<forall>e. fst (resolveModuleName sample_env disk_b host_a ''/w/a.vue'' name) \<noteq> Inl e"
    by (simp add: resolveModuleName_raises sample_candidate_b disk_b_def)
  have first: "fst (resolveModuleName sample_env disk_b host_a ''/w/a.vue'' ''./b.vue'')
      = Inr (Some \<lparr>resolvedFileName = ''/w/b.vue'', extension = Ts\<rparr>)"
    by (rule sample_resolve_b_first)
  from bridge_resolves [of 1 ?names sample_env disk_b host_a "''/w/a.vue''"] quiet bridge
  obtain rs where rs: "fst (resolveModuleNames sample_env disk_b host_a ?names ''/w/a.vue'') = Inr rs"
    and at: "rs ! 1 = Some \<lparr>resolvedFileName = ''vue-temp/vue-editor-bridge.ts'', extension = Ts\<rparr>"
    by auto
  have "rs = [Some \<lparr>resolvedFileName = ''/w/b.vue'', extension = Ts\<rparr>,
              Some \<lparr>resolvedFileName = ''vue-temp/vue-editor-bridge.ts'', extension = Ts\<rparr>]"
    using rs first bridge
    by (cases "resolveModuleName sample_env disk_b host_a ''/w/a.vue'' ''./b.vue''")
      (auto simp: resolveModuleName_def)
  with rs bridge_resolves [of 0 "[''vue-editor-bridge'']" sample_env Map.empty host_b "''/x/y.ts''"]
    bridge
  show ?thesis by simp
qed

text \<open>
  C9 (as amended). The resolver's answer is a function of the import specifiers, the
  containing file, the tracked documents, the disk and the state of the document
  cache: two host states that agree on the tracked documents and on the cache give the
  same answers and leave the same cache, whatever their versions, root files and
  current document. Ordinary resolution, to which the host delegates absolute and
  non-mixed-content specifiers, is handed the compiler settings as well, so for those
  specifiers the two states must also agree on the setting the host changes.
\<close>

lemma resolveModuleName_agree:
  assumes "docs s = docs s'" and "jsDocuments s = jsDocuments s'"
    and "allowJs s = allowJs s'
         \<or> name = bridge_moduleName E \<or> (\<not> path_isAbsolute E name \<and> isVue E name)"
  shows "fst (resolveModuleName E d s containingFile name)
           = fst (resolveModuleName E d s' containingFile name)
    \<and> jsDocuments (snd (resolveModuleName E d s containingFile name))
        = jsDocuments (snd (resolveModuleName E d s' containingFile name))"
  using assms
  by (auto simp: resolveModuleName_def Let_def case_prod_beta
      split: option.splits file_entry.splits)

theorem resolution_deterministic:
  assumes "docs s = docs s'" and "jsDocuments s = jsDocuments s'"
    and "allowJs s = allowJs s'
         \<or> (\<forall>name \<in> set moduleNames.
               name = bridge_moduleName E \<or> (\<not> path_isAbsolute E name \<and> isVue E name))"
  shows "fst (resolveModuleNames E d s moduleNames containingFile)
           = fst (resolveModuleNames E d s' moduleNames containingFile)
    \<and> jsDocuments (snd (resolveModuleNames E d s moduleNames containingFile))
        = jsDocuments (snd (resolveModuleNames E d s' moduleNames containingFile))"
  using assms
proof (induction moduleNames arbitrary: s s')
  case Nil
  then show ?case by simp
next
  case (Cons name names)
  obtain r s1 where one: "resolveModuleName E d s containingFile name = (r, s1)"
    by (cases "resolveModuleName E d s containingFile name")
  obtain r' s1' where one': "resolveModuleName E d s' containingFile name = (r', s1')"
    by (cases "resolveModuleName E d s' containingFile name")
  have here: "allowJs s = allowJs s'
      \<or> name = bridge_moduleName E \<or> (\<not> path_isAbsolute E name \<and> isVue E name)"
    using Cons.prems(3) by auto
  have same: "r = r'" "jsDocuments s1 = jsDocuments s1'"
    using resolveModuleName_agree [OF Cons.prems(1,2) here, of d containingFile] one one'
    by simp_all
  have frame: "docs s1 = docs s" "allowJs s1 = allowJs s" "docs s1' = docs s'"
    "allowJs s1' = allowJs s'"
    using resolveModuleName_frame [of E d s containingFile name]
      resolveModuleName_frame [of E d s' containingFile name] one one'
    by simp_all
  show ?case
  proof (cases r)
    case (Inl e)
    with one one' same show ?thesis by auto
  next
    case (Inr found)
    have later: "allowJs s1 = allowJs s1'
        \<or> (\<forall>n \<in> set names.
              n = bridge_moduleName E \<or> (\<not> path_isAbsolute E n \<and> isVue E n))"
      using Cons.prems(3) frame by auto
    have "fst (resolveModuleNames E d s1 names containingFile)
        = fst (resolveModuleNames E d s1' names containingFile)
      \<and> jsDocuments (snd (resolveModuleNames E d s1 names containingFile))
        = jsDocuments (snd (resolveModuleNames E d s1' names containingFile))"
      using Cons.IH [of s1 s1'] frame Cons.prems(1) same(2) later by simp
    with one one' same Inr show ?thesis
      by (cases "resolveModuleNames E d s1 names containingFile";
          cases "resolveModuleNames E d s1' names containingFile")
        (auto split: sum.splits)
  qed
qed

theorem resolution_deterministic_witness:
  "docs host_a = docs (updateCurrentTextDocument sample_env (sample_init [''/w/x.ts''] False) doc_a)
   \<and> jsDocuments host_a
       = jsDocuments (updateCurrentTextDocument sample_env (sample_init [''/w/x.ts''] False) doc_a)
   \<and> allowJs host_a
   \<and> \<not> allowJs (updateCurrentTextDocument sample_env (sample_init [''/w/x.ts''] False) doc_a)
   \<and> fst (resolveModuleNames sample_env disk_b host_a
         [''./b.vue'', ''vue-editor-bridge'', ''./c.vue''] ''/w/a.vue'')
       = fst (resolveModuleNames sample_env disk_b
           (updateCurrentTextDocument sample_env (sample_init [''/w/x.ts''] False) doc_a)
           [''./b.vue'', ''vue-editor-bridge'', ''./c.vue''] ''/w/a.vue'')
   \<and> fst (resolveModuleNames sample_env disk_b (sample_init [] True)
         [''./b.vue'', ''./lib''] ''/w/a.vue'')
       = fst (resolveModuleNames sample_env disk_b (sample_init [''/w/x.ts''] True)
           [''./b.vue'', ''./lib''] ''/w/a.vue'')"
proof -
  let ?s' = "updateCurrentTextDocument sample_env (sample_init [''/w/x.ts''] False) doc_a"
  have same: "docs host_a = docs ?s'"
    by (simp add: docs_host_a docs_update sample_init_def accepted_init sample_path_a docs_init
        script_init_a [unfolded sample_init_def])
  have cache: "jsDocuments host_a = jsDocuments ?s'"
    by (simp add: host_a_def sample_init_def jsDocuments_update accepted_init
        jsDocuments_init)
  have same0: "docs (sample_init [] True) = docs (sample_init [''/w/x.ts''] True)"
    "jsDocuments (sample_init [] True) = jsDocuments (sample_init [''/w/x.ts''] True)"
    by (simp_all add: sample_init_def init_host_def)
  have settings: "allowJs (sample_init [] True) = allowJs (sample_init [''/w/x.ts''] True)"
    by (simp add: sample_init_def init_host_def)
  have off: "\<not> allowJs ?s'"
    by (simp add: sample_init_def allowJs_update accepted_init docs_init languageChange_def
        init_host_def)
  have own: "\<forall>name \<in> set [''./b.vue'', ''vue-editor-bridge'', ''./c.vue''].
      name = bridge_moduleName sample_env
      \<or> (\<not> path_isAbsolute sample_env name \<and> isVue sample_env name)"
    by (simp add: sample_env_def endsWith_def)
  show ?thesis
    using resolution_deterministic [OF same cache disjI2, OF own, of disk_b "''/w/a.vue''"]
      resolution_deterministic [OF same0 disjI1, OF settings, of sample_env disk_b
        "[''./b.vue'', ''./lib'']" "''/w/a.vue''"]
      same cache allowJs_host_a off
    by (simp del: resolveModuleNames.simps)
qed

text \<open>
  The claim as written fails: two host states with the same tracked documents,
  versions, root files and compiler setting, asked to resolve the same import from the
  same file on the same disk, answer with different dialects. They differ in the
  document cache alone: in one of them \<open>./b.vue\<close> was resolved before, while its
  script block on disk was typed.
\<close>

theorem cache_dependent_resolution_counterexample:
  "docs host_a_resolved = docs host_a
   \<and> versions host_a_resolved = versions host_a
   \<and> files host_a_resolved = files host_a
   \<and> allowJs host_a_resolved = allowJs host_a
   \<and> fst (resolveModuleNames sample_env disk_b_js host_a [''./b.vue''] ''/w/a.vue'')
       = Inr [Some \<lparr>resolvedFileName = ''/w/b.vue'', extension = Js\<rparr>]
   \<and> fst (resolveModuleNames sample_env disk_b_js host_a_resolved [''./b.vue''] ''/w/a.vue'')
       = Inr [Some \<lparr>resolvedFileName = ''/w/b.vue'', extension = Ts\<rparr>]"
proof -
  have "fst (resolveModuleNames sample_env disk_b_js host_a [''./b.vue''] ''/w/a.vue'')
       = Inr [Some \<lparr>resolvedFileName = ''/w/b.vue'', extension = Js\<rparr>]"
    using sample_resolve_b_fresh
    by (cases "resolveModuleName sample_env disk_b_js host_a ''/w/a.vue'' ''./b.vue''") simp
  moreover have "fst (resolveModuleNames sample_env disk_b_js host_a_resolved [''./b.vue''] ''/w/a.vue'')
       = Inr [Some \<lparr>resolvedFileName = ''/w/b.vue'', extension = Ts\<rparr>]"
    using sample_resolve_b_stale
    by (cases "resolveModuleName sample_env disk_b_js host_a_resolved ''/w/a.vue'' ''./b.vue''")
      simp
  ultimately show ?thesis
    using host_a_resolved_frame by simp
qed

subsection \<open>The root file set\<close>

text \<open>
  The root file list changes in updates only, and an update leaves it as it is or
  appends the path of the submitted document: the list is never reordered or pruned.
\<close>

lemma files_update_append:
  "files (updateCurrentTextDocument E s doc) = files s
   \<or> files (updateCurrentTextDocument E s doc) = files s @ [getFileFsPath E (uri doc)]"
  by (simp add: files_update files_addFile)

lemma files_run_updates_prefix: "\<exists>added. files (run_updates E s ds) = files s @ added"
proof (induction ds arbitrary: s)
  case Nil
  show ?case by simp
next
  case (Cons d ds)
  obtain added where run: "files (run_updates E (updateCurrentTextDocument E s d) ds)
      = files (updateCurrentTextDocument E s d) @ added"
    using Cons.IH by blast
  from files_update_append [of E s d] show ?case
  proof
    assume "files (updateCurrentTextDocument E s d) = files s"
    with run show ?thesis by simp
  next
    assume "files (updateCurrentTextDocument E s d) = files s @ [getFileFsPath E (uri d)]"
    with run show ?thesis by simp
  qed
qed

text \<open>
  C7. The claim that a path is appended only when it is not yet in the root file set
  does not hold of the code: the test before the push asks whether the path is tracked
  (\<open>docs.has\<close>), not whether the list holds it. A mixed-content file that the project
  configuration already lists is appended a second time by its first update.
\<close>

theorem listed_vue_appended_again:
  "getScriptFileNames (sample_init [''/w/a.vue''] True) = [''/w/a.vue'']
   \<and> getScriptFileNames (updateCurrentTextDocument sample_env (sample_init [''/w/a.vue''] True) doc_a)
       = [''/w/a.vue'', ''/w/a.vue'']"
  by (simp add: getScriptFileNames_def sample_init_def files_update files_addFile
      sample_path_a docs_init files_init vue_a)

subsection \<open>Snapshots\<close>

text \<open>
  C8 (as amended). The snapshot of the bridge's file name is the bridge's fixed text.
  For any other file name the text served is the tracked document's text when the
  normalized path is tracked, else the text read from disk, and the empty text when
  the read returns nothing because no file is there; when the file name is a
  mixed-content one, the script-block extraction is applied to that text. A read that
  raises, as the read of a file that exists and cannot be read does, is not caught:
  the callback raises the same error.
\<close>

theorem snapshot_sources:
  "getScriptSnapshot E d s (bridge_fileName E) = Inr (bridge_content E)
   \<and> (\<forall>doc. fileName \<noteq> bridge_fileName E
          \<and> docs s (getNormalizedFileFsPath E fileName) = Some doc
        \<longrightarrow> getScriptSnapshot E d s fileName
              = Inr (if isVue E fileName then parseVue E (getText doc) else getText doc))
   \<and> (fileName \<noteq> bridge_fileName E
          \<and> docs s (getNormalizedFileFsPath E fileName) = None
          \<and> sys_readFile d (getNormalizedFileFsPath E fileName) = Inr None
        \<longrightarrow> getScriptSnapshot E d s fileName
              = Inr (if isVue E fileName then parseVue E [] else []))
   \<and> (\<forall>content. fileName \<noteq> bridge_fileName E
          \<and> docs s (getNormalizedFileFsPath E fileName) = None
          \<and> sys_readFile d (getNormalizedFileFsPath E fileName) = Inr (Some content)
        \<longrightarrow> getScriptSnapshot E d s fileName
              = Inr (if isVue E fileName then parseVue E content else content))
   \<and> (\<forall>e. fileName \<noteq> bridge_fileName E
          \<and> docs s (getNormalizedFileFsPath E fileName) = None
          \<and> sys_readFile d (getNormalizedFileFsPath E fileName) = Inl e
        \<longrightarrow> getScriptSnapshot E d s fileName = Inl e)"
proof (intro conjI allI impI)
  show "getScriptSnapshot E d s (bridge_fileName E) = Inr (bridge_content E)"
    by (simp add: getScriptSnapshot_def)
next
  fix doc
  assume "fileName \<noteq> bridge_fileName E \<and> docs s (getNormalizedFileFsPath E fileName) = Some doc"
  then show "getScriptSnapshot E d s fileName
      = Inr (if isVue E fileName then parseVue E (getText doc) else getText doc)"
    by (simp add: getScriptSnapshot_def)
next
  assume "fileName \<noteq> bridge_fileName E \<and> docs s (getNormalizedFileFsPath E fileName) = None
      \<and> sys_readFile d (getNormalizedFileFsPath E fileName) = Inr None"
  then show "getScriptSnapshot E d s fileName
      = Inr (if isVue E fileName then parseVue E [] else [])"
    by (simp add: getScriptSnapshot_def)
next
  fix content
  assume "fileName \<noteq> bridge_fileName E \<and> docs s (getNormalizedFileFsPath E fileName) = None
      \<and> sys_readFile d (getNormalizedFileFsPath E fileName) = Inr (Some content)"
  then show "getScriptSnapshot E d s fileName
      = Inr (if isVue E fileName then parseVue E content else content)"
    by (cases "content = []") (simp_all add: getScriptSnapshot_def)
next
  fix e
  assume "fileName \<noteq> bridge_fileName E \<and> docs s (getNormalizedFileFsPath E fileName) = None
      \<and> sys_readFile d (getNormalizedFileFsPath E fileName) = Inl e"
  then show "getScriptSnapshot E d s fileName = Inl e"
    by (simp add: getScriptSnapshot_def)
qed

theorem snapshot_sources_witness:
  "getScriptSnapshot sample_env disk_b host_a ''vue-temp/vue-editor-bridge.ts''
     = Inr ''export default function(o) { return o }''
   \<and> getScriptSnapshot sample_env disk_b host_a ''/w/a.vue'' = Inr ''   import b from ./b.vue''
   \<and> getScriptSnapshot sample_env disk_b host_a ''/w/b.vue'' = Inr ''   export default {}''
   \<and> getScriptSnapshot sample_env disk_b host_a ''/w/c.vue'' = Inr []
   \<and> getScriptSnapshot sample_env disk_b host_a ''/w/c.js'' = Inr []
   \<and> getScriptSnapshot sample_env disk_b_unreadable host_a ''/w/b.vue'' = Inl IOError"
proof -
  have norm: "getNormalizedFileFsPath sample_env f = f" for f
    by (simp add: getNormalizedFileFsPath_def sample_env_def)
  have bridge: "bridge_fileName sample_env = ''vue-temp/vue-editor-bridge.ts''"
    "bridge_content sample_env = ''export default function(o) { return o }''"
    by (simp_all add: sample_env_def)
  have vue: "isVue sample_env ''/w/a.vue''" "isVue sample_env ''/w/b.vue''"
    "isVue sample_env ''/w/c.vue''" "\<not> isVue sample_env ''/w/c.js''"
    by (simp_all add: sample_env_def endsWith_def)
  have extracted: "parseVue sample_env (getText doc_a) = ''   import b from ./b.vue''"
    "parseVue sample_env ''ts export default {}'' = ''   export default {}''"
    "parseVue sample_env [] = []"
    by (simp_all add: sample_env_def doc_a_def)
  have reads: "sys_readFile disk_b ''/w/b.vue'' = Inr (Some ''ts export default {}'')"
    "sys_readFile disk_b ''/w/c.vue'' = Inr None" "sys_readFile disk_b ''/w/c.js'' = Inr None"
    "sys_readFile disk_b_unreadable ''/w/b.vue'' = Inl IOError"
    by (simp_all add: sys_readFile_def disk_b_def disk_b_unreadable_def)
  show ?thesis
    using snapshot_sources [of sample_env disk_b host_a "''/w/a.vue''"]
      snapshot_sources [of sample_env disk_b host_a "''/w/b.vue''"]
      snapshot_sources [of sample_env disk_b host_a "''/w/c.vue''"]
      snapshot_sources [of sample_env disk_b host_a "''/w/c.js''"]
      snapshot_sources [of sample_env disk_b_unreadable host_a "''/w/b.vue''"]
    by (simp add: norm bridge vue extracted reads docs_host_a)
qed

text \<open>
  The claim as written fails: for a file that exists on disk, is not tracked and cannot
  be read, the snapshot is not the empty text; the error of the read reaches the
  caller.
\<close>

theorem unreadable_snapshot_counterexample:
  "sys_fileExists disk_b_unreadable ''/w/b.vue''
   \<and> docs host_a (getNormalizedFileFsPath sample_env ''/w/b.vue'') = None
   \<and> getScriptSnapshot sample_env disk_b_unreadable host_a ''/w/b.vue'' = Inl IOError"
  by (simp add: getScriptSnapshot_def sys_fileExists_def sys_readFile_def
      disk_b_unreadable_def getNormalizedFileFsPath_def sample_env_def docs_host_a)

subsection \<open>Queries on a file outside the program\<close>

text \<open>
  C10. Each of the nine guarded queries first updates the host with the document. When
  the document's file path is then not among the program's root file names, the query
  returns its empty result (no diagnostics, the empty completion list, the null
  completion item, empty hover contents, the null signature, no highlights, no symbols,
  no definition, no references), and its only call on the compiler service is the one
  that asks for the program: no request names the document.
\<close>

theorem excluded_file_empty_results:
  assumes "\<not> languageServiceIncludesFile E ls d (updateCurrentTextDocument E s doc) (uri doc)"
  shows "doValidation F E ls d s doc = (Inr [], [GetProgram], updateCurrentTextDocument E s doc)
    \<and> doComplete F E ls d s doc position
        = (Inr (CompletionList False []), [GetProgram], updateCurrentTextDocument E s doc)
    \<and> doResolve F E ls d s doc item
        = (Inr (NULL_COMPLETION F), [GetProgram], updateCurrentTextDocument E s doc)
    \<and> doHover F E ls d s doc position
        = (Inr (Hover None []), [GetProgram], updateCurrentTextDocument E s doc)
    \<and> doSignatureHelp F E ls d s doc position
        = (Inr (NULL_SIGNATURE F), [GetProgram], updateCurrentTextDocument E s doc)
    \<and> findDocumentHighlight F E ls d s doc position
        = (Inr [], [GetProgram], updateCurrentTextDocument E s doc)
    \<and> findDocumentSymbols F E ls d s doc
        = (Inr [], [GetProgram], updateCurrentTextDocument E s doc)
    \<and> findDefinition F E ls d s doc position
        = (Inr [], [GetProgram], updateCurrentTextDocument E s doc)
    \<and> findReferences F E ls d s doc position
        = (Inr [], [GetProgram], updateCurrentTextDocument E s doc)"
proof -
  have "doValidation F E ls d s doc = (Inr [], [GetProgram], updateCurrentTextDocument E s doc)"
    using assms by (simp add: doValidation_def Let_def)
  moreover have "doComplete F E ls d s doc position
      = (Inr (CompletionList False []), [GetProgram], updateCurrentTextDocument E s doc)"
    using assms by (simp add: doComplete_def emptyCompletionList_def Let_def)
  moreover have "doResolve F E ls d s doc item
      = (Inr (NULL_COMPLETION F), [GetProgram], updateCurrentTextDocument E s doc)"
    using assms by (simp add: doResolve_def Let_def)
  moreover have "doHover F E ls d s doc position
      = (Inr (Hover None []), [GetProgram], updateCurrentTextDocument E s doc)"
    using assms by (simp add: doHover_def emptyHover_def Let_def)
  moreover have "doSignatureHelp F E ls d s doc position
      = (Inr (NULL_SIGNATURE F), [GetProgram], updateCurrentTextDocument E s doc)"
    using assms by (simp add: doSignatureHelp_def Let_def)
  moreover have "findDocumentHighlight F E ls d s doc position
      = (Inr [], [GetProgram], updateCurrentTextDocument E s doc)"
    using assms by (simp add: findDocumentHighlight_def Let_def)
  moreover have "findDocumentSymbols F E ls d s doc
      = (Inr [], [GetProgram], updateCurrentTextDocument E s doc)"
    using assms by (simp add: findDocumentSymbols_def Let_def)
  moreover have "findDefinition F E ls d s doc position
      = (Inr [], [GetProgram], updateCurrentTextDocument E s doc)"
    using assms by (simp add: findDefinition_def Let_def)
  moreover have "findReferences F E ls d s doc position
      = (Inr [], [GetProgram], updateCurrentTextDocument E s doc)"
    using assms by (simp add: findReferences_def Let_def)
  ultimately show ?thesis by blast
qed

theorem excluded_file_empty_results_witness:
  "getScriptFileNames (updateCurrentTextDocument sample_env (sample_init [''/w/a.vue''] True) doc_c)
     = [''/w/a.vue'']
   \<and> \<not> languageServiceIncludesFile sample_env sample_service disk_b
        (updateCurrentTextDocument sample_env (sample_init [''/w/a.vue''] True) doc_c) (uri doc_c)
   \<and> fst (doValidation sample_feature_env sample_env sample_service disk_b
        (sample_init [''/w/a.vue''] True) doc_c) = Inr []
   \<and> fst (snd (doHover sample_feature_env sample_env sample_service disk_b
        (sample_init [''/w/a.vue''] True) doc_c (Position 0 3))) = [GetProgram]
   \<and> fst (doSignatureHelp sample_feature_env sample_env sample_service disk_b
        (sample_init [''/w/a.vue''] True) doc_c (Position 0 3)) = Inr (SignatureHelp None None [])"
proof -
  have root: "files (updateCurrentTextDocument sample_env (sample_init [''/w/a.vue''] True) doc_c)
      = [''/w/a.vue'']"
    by (simp add: sample_init_def files_update files_addFile sample_path_c docs_init
        files_init endsWith_def)
  have path: "getFilePath sample_env (uri doc_c) = ''/w/c.js''"
    by (simp add: getFilePath_def sample_env_def doc_c_def)
  have excluded: "\<not> languageServiceIncludesFile sample_env sample_service disk_b
      (updateCurrentTextDocument sample_env (sample_init [''/w/a.vue''] True) doc_c) (uri doc_c)"
    by (simp add: languageServiceIncludesFile_def Let_def path sample_service_def
        getScriptFileNames_def root)
  have null: "NULL_SIGNATURE sample_feature_env = SignatureHelp None None []"
    by (simp add: sample_feature_env_def)
  show ?thesis
    using excluded_file_empty_results [OF excluded, of sample_feature_env "Position 0 3"]
      excluded root null
    by (simp add: getScriptFileNames_def)
qed

text \<open>
  Past the guard, a query that reads \<open>currentTextDocument\<close> before it asks the
  service raises without asking.
\<close>

lemma included_file_hover_raises:
  assumes "languageServiceIncludesFile E ls d (updateCurrentTextDocument E s doc) (uri doc)"
  shows "doHover F E ls d s doc position
    = (Inl ReferenceError, [GetProgram], updateCurrentTextDocument E s doc)"
  using assms by (simp add: doHover_def mode_currentTextDocument_def Let_def)


end
